theory Spec2Isabelle
  imports Complex_Main "HOL-Library.Sublist" "HOL-Library.Product_Lexorder" "HOL-Library.Multiset"
    "HOL-Library.Monad_Syntax"
begin

section \<open>Python strings\<close>

text \<open>
  A Python \<open>str\<close> is modelled as a HOL \<open>string\<close>; a \<open>char\<close> is read as a code point
  in the range U+0000 .. U+00FF.  Python integers are \<open>int\<close>, positions in a string
  are \<open>nat\<close>.
\<close>

definition NL :: char where
  "NL = CHR 0x0A"

text \<open>\<open>str.isspace\<close> / the regex class \<open>\s\<close> on code points below 256.\<close>

definition is_space :: "char \<Rightarrow> bool" where
  "is_space c = (let n = (of_char c :: nat) in
     (9 \<le> n \<and> n \<le> 13) \<or> (28 \<le> n \<and> n \<le> 32) \<or> n = 133 \<or> n = 160)"

text \<open>The regex class \<open>\d\<close>: decimal digits.\<close>

definition is_digit :: "char \<Rightarrow> bool" where
  "is_digit c = (let n = (of_char c :: nat) in 48 \<le> n \<and> n \<le> 57)"

text \<open>The regex class \<open>\w\<close>: alphanumeric code points and the underscore.\<close>

definition is_word :: "char \<Rightarrow> bool" where
  "is_word c = (let n = (of_char c :: nat) in
     (48 \<le> n \<and> n \<le> 57) \<or> (65 \<le> n \<and> n \<le> 90) \<or> n = 95 \<or> (97 \<le> n \<and> n \<le> 122)
     \<or> n = 170 \<or> n = 178 \<or> n = 179 \<or> n = 181 \<or> n = 185 \<or> n = 186
     \<or> (188 \<le> n \<and> n \<le> 190) \<or> (192 \<le> n \<and> n \<le> 214) \<or> (216 \<le> n \<and> n \<le> 246)
     \<or> 248 \<le> n)"

text \<open>\<open>s.strip()\<close>\<close>

definition strip :: "string \<Rightarrow> string" where
  "strip s = rev (dropWhile is_space (rev (dropWhile is_space s)))"

text \<open>\<open>s.split('\n')\<close>: never empty.\<close>

fun split_nl :: "string \<Rightarrow> string list" where
  "split_nl [] = [[]]"
| "split_nl (c # cs) =
     (if c = NL then [] # split_nl cs
      else (case split_nl cs of [] \<Rightarrow> [[c]] | l # ls \<Rightarrow> (c # l) # ls))"

text \<open>\<open>'\n'.join(xs)\<close>\<close>

fun join_nl :: "string list \<Rightarrow> string" where
  "join_nl [] = []"
| "join_nl [x] = x"
| "join_nl (x # y # ys) = x @ NL # join_nl (y # ys)"

text \<open>\<open>s.startswith(p)\<close>\<close>

definition startswith :: "string \<Rightarrow> string \<Rightarrow> bool" where
  "startswith s p = prefix p s"

text \<open>\<open>s.find(sub)\<close>, with \<open>None\<close> for Python's \<open>-1\<close>.\<close>

fun py_find :: "string \<Rightarrow> string \<Rightarrow> nat option" where
  "py_find sub [] = (if sub = [] then Some 0 else None)"
| "py_find sub (c # cs) =
     (if prefix sub (c # cs) then Some 0 else map_option Suc (py_find sub cs))"

text \<open>\<open>sub in s\<close>\<close>

definition contains :: "string \<Rightarrow> string \<Rightarrow> bool" where
  "contains sub s = (py_find sub s \<noteq> None)"

text \<open>\<open>str(n)\<close> for an integer.\<close>

fun str_nat :: "nat \<Rightarrow> string" where
  "str_nat n = (if n < 10 then [char_of (48 + n)]
                else str_nat (n div 10) @ [char_of (48 + n mod 10)])"

definition str_int :: "int \<Rightarrow> string" where
  "str_int i = (if i < 0 then CHR ''-'' # str_nat (nat (- i)) else str_nat (nat i))"

text \<open>
  \<open>re.search(r'[^\s\d\W]{3,}', s)\<close> as a truth value: some three consecutive
  characters are word characters that are neither digits nor whitespace.
\<close>

definition is_ident_char :: "char \<Rightarrow> bool" where
  "is_ident_char c = (\<not> is_space c \<and> \<not> is_digit c \<and> is_word c)"

fun has_ident_run :: "string \<Rightarrow> bool" where
  "has_ident_run (a # b # c # cs) =
     ((is_ident_char a \<and> is_ident_char b \<and> is_ident_char c) \<or> has_ident_run (b # c # cs))"
| "has_ident_run _ = False"

text \<open>\<open>len(re.findall(r'\w+', s))\<close>: the number of maximal runs of word characters.\<close>

fun count_word_runs :: "bool \<Rightarrow> string \<Rightarrow> nat" where
  "count_word_runs inside [] = 0"
| "count_word_runs inside (c # cs) =
     (if is_word c then (if inside then 0 else 1) + count_word_runs True cs
      else count_word_runs False cs)"

section \<open>Insertion-ordered dictionaries of lists\<close>

text \<open>
  A \<open>defaultdict(list)\<close> is an association list in insertion order;
  \<open>d[k].append(v)\<close> creates the key at the end when it is missing.
\<close>

fun dd_get :: "('k \<times> 'v list) list \<Rightarrow> 'k \<Rightarrow> 'v list" where
  "dd_get [] k = []"
| "dd_get ((k', vs) # d) k = (if k' = k then vs else dd_get d k)"

fun dd_append :: "('k \<times> 'v list) list \<Rightarrow> 'k \<Rightarrow> 'v \<Rightarrow> ('k \<times> 'v list) list" where
  "dd_append [] k v = [(k, [v])]"
| "dd_append ((k', vs) # d) k v =
     (if k' = k then (k', vs @ [v]) # d else (k', vs) # dd_append d k v)"

text \<open>All values of the dictionary, in iteration order.\<close>

definition dd_values :: "('k \<times> 'v list) list \<Rightarrow> 'v list" where
  "dd_values d = concat (map snd d)"

section \<open>Data model\<close>

record finding =
  f_type :: string
  f_description :: string
  f_severity :: string
  f_line :: int
  f_context :: "string option"

record occurrence =
  occ_file :: string
  occ_start_line :: int
  occ_end_line :: int
  occ_content :: string

record location =
  file_path :: string
  start_line :: int
  end_line :: int

record report_block =
  rb_lines :: int
  rb_tokens :: int
  rb_files :: "location list"
  rb_code_snippet :: string

section \<open>Duplicate-block scanner: \<open>_check_duplicated_code\<close>\<close>

definition dup_comment_markers :: "string \<Rightarrow> string list" where
  "dup_comment_markers language =
     (if language = ''Python'' then [''#'']
      else if language \<in> set [''JavaScript'', ''Java'', ''C'', ''C++'', ''C#''] then [''//'', ''/*'']
      else if language = ''Ruby'' then [''#'']
      else if language = ''PHP'' then [''//'', ''/*'', ''#'']
      else [''#'', ''//''])"

definition dup_block_langs :: "string list" where
  "dup_block_langs = [''JavaScript'', ''Java'', ''C'', ''C++'', ''C#'', ''PHP'']"

text \<open>\<open>'/*' in s and '*/' not in s[s.index('/*') + 2:]\<close>\<close>

definition opens_block_comment :: "string \<Rightarrow> bool" where
  "opens_block_comment s =
     (case py_find ''/*'' s of None \<Rightarrow> False
      | Some k \<Rightarrow> \<not> contains ''*/'' (drop (k + 2) s))"

definition is_comment_line :: "string list \<Rightarrow> string \<Rightarrow> bool" where
  "is_comment_line markers s = list_ex (startswith s) markers"

text \<open>The loop building \<open>clean_lines\<close>; the state is \<open>in_block_comment\<close> and the list.\<close>

fun clean_loop :: "string \<Rightarrow> string list \<Rightarrow> bool \<Rightarrow> string list \<Rightarrow> string list \<Rightarrow> string list" where
  "clean_loop language markers in_block_comment clean [] = clean"
| "clean_loop language markers in_block_comment clean (line # rest) =
     (let line_stripped = strip line in
      if line_stripped = [] then clean_loop language markers in_block_comment clean rest
      else
        let ibc1 = (if language \<in> set dup_block_langs \<and> opens_block_comment line_stripped
                    then True else in_block_comment);
            closes = (language \<in> set dup_block_langs \<and> contains ''*/'' line_stripped \<and> ibc1)
        in if closes then clean_loop language markers False clean rest
           else if is_comment_line markers line_stripped \<or> ibc1
             then clean_loop language markers ibc1 clean rest
           else clean_loop language markers ibc1 (clean @ [line_stripped]) rest)"

definition clean_lines :: "string \<Rightarrow> string \<Rightarrow> string list" where
  "clean_lines language content =
     clean_loop language (dup_comment_markers language) False [] (split_nl content)"

definition min_block_size :: nat where
  "min_block_size = 5"

text \<open>One iteration of the sliding-window loop, for window index \<open>i\<close>.\<close>

definition window_step ::
  "(string \<Rightarrow> int) \<Rightarrow> string \<Rightarrow> string list \<Rightarrow> (int \<times> occurrence list) list \<Rightarrow> nat
     \<Rightarrow> (int \<times> occurrence list) list" where
  "window_step hash fp clean blocks i =
     (let block = join_nl (take min_block_size (drop i clean)) in
      if length block < 100 \<or> \<not> has_ident_run block then blocks
      else dd_append blocks (hash block)
             \<lparr>occ_file = fp, occ_start_line = int i + 1,
              occ_end_line = int i + int min_block_size, occ_content = block\<rparr>)"

text \<open>
  \<open>_check_duplicated_code\<close>.  The builtin \<open>hash\<close> is a parameter: Python seeds its
  string hash per process.  \<open>range(len(clean_lines) - min_block_size + 1)\<close> is empty
  when the file has fewer than five clean lines.
\<close>

definition check_duplicated_code ::
  "(string \<Rightarrow> int) \<Rightarrow> (int \<times> occurrence list) list \<Rightarrow> string \<Rightarrow> string \<Rightarrow> string
     \<Rightarrow> (int \<times> occurrence list) list" where
  "check_duplicated_code hash blocks fp content language =
     (let clean = clean_lines language content in
      foldl (window_step hash fp clean) blocks [0 ..< length clean + 1 - min_block_size])"

section \<open>Duplicate-block report: \<open>_analyze_duplicated_code\<close>\<close>

text \<open>The state of the loop over the hash groups.\<close>

record dup_state =
  final_duplicates :: "report_block list"
  reported_locations :: "(string \<times> int) set"
  smells :: "(string \<times> finding list) list"

text \<open>The loop over the occurrences of one group, building \<open>locations_for_report\<close>.\<close>

fun collect_locations ::
  "occurrence list \<Rightarrow> location list \<Rightarrow> (string \<times> int) set
     \<Rightarrow> location list \<times> (string \<times> int) set" where
  "collect_locations [] locations_for_report reported = (locations_for_report, reported)"
| "collect_locations (occ # occs) locations_for_report reported =
     (let loc_tuple = (occ_file occ, occ_start_line occ) in
      if loc_tuple \<notin> reported
      then collect_locations occs
             (locations_for_report @
                [\<lparr>file_path = occ_file occ, start_line = occ_start_line occ,
                  end_line = occ_end_line occ\<rparr>])
             (insert loc_tuple reported)
      else collect_locations occs locations_for_report reported)"

definition duplicate_smell :: "int \<Rightarrow> nat \<Rightarrow> location \<Rightarrow> finding" where
  "duplicate_smell block_lines n loc =
     \<lparr>f_type = ''duplicate_code'',
      f_description = ''Part of duplicated code block ('' @ str_int block_lines
         @ '' lines) found in '' @ str_nat n @ '' location(s)'',
      f_severity = ''high'', f_line = start_line loc, f_context = None\<rparr>"

text \<open>The loop adding one smell per file of a reported group.\<close>

fun smell_loop ::
  "int \<Rightarrow> nat \<Rightarrow> location list \<Rightarrow> string set \<Rightarrow> (string \<times> finding list) list
     \<Rightarrow> (string \<times> finding list) list" where
  "smell_loop block_lines n [] files_smelled sm = sm"
| "smell_loop block_lines n (loc # locs) files_smelled sm =
     (if file_path loc \<notin> files_smelled
      then smell_loop block_lines n locs (insert (file_path loc) files_smelled)
             (dd_append sm (file_path loc) (duplicate_smell block_lines n loc))
      else smell_loop block_lines n locs files_smelled sm)"

text \<open>\<open>content_sample[:300] + ('...' if len(content_sample) > 300 else '')\<close>\<close>

definition snippet :: "string \<Rightarrow> string" where
  "snippet content_sample =
     take 300 content_sample @ (if length content_sample > 300 then ''...'' else [])"

text \<open>One iteration of the loop over \<open>self.duplicated_blocks.items()\<close>.\<close>

definition dup_group_step :: "dup_state \<Rightarrow> int \<times> occurrence list \<Rightarrow> dup_state" where
  "dup_group_step st entry =
     (case snd entry of
        [] \<Rightarrow> st
      | representative_occurrence # others \<Rightarrow>
          if others = [] then st
          else
            let occurrences = snd entry;
                block_line_count = occ_end_line representative_occurrence
                                   - occ_start_line representative_occurrence + 1
            in if block_line_count < 5 then st
               else
                 let (locations_for_report, reported) =
                        collect_locations occurrences [] (reported_locations st)
                 in if length locations_for_report > 1
                    then
                      let content_sample = occ_content representative_occurrence;
                          report_block =
                            \<lparr>rb_lines = block_line_count,
                             rb_tokens = int (count_word_runs False content_sample),
                             rb_files = locations_for_report,
                             rb_code_snippet = snippet content_sample\<rparr>
                      in \<lparr>final_duplicates = final_duplicates st @ [report_block],
                          reported_locations = reported,
                          smells = smell_loop block_line_count (length locations_for_report)
                                     locations_for_report {} (smells st)\<rparr>
                    else st\<lparr>reported_locations := reported\<rparr>)"

text \<open>
  \<open>list.sort(key=..., reverse=True)\<close>: a stable sort of the reversed list, reversed.
\<close>

definition sort_reverse :: "('a \<Rightarrow> 'k::linorder) \<Rightarrow> 'a list \<Rightarrow> 'a list" where
  "sort_reverse key xs = rev (sort_key key (rev xs))"

text \<open>
  \<open>_analyze_duplicated_code\<close> on the collected groups and the code smells so far:
  the sorted report and the new code smells.
\<close>

definition dup_loop ::
  "(string \<times> finding list) list \<Rightarrow> (int \<times> occurrence list) list \<Rightarrow> dup_state" where
  "dup_loop code_smells0 blocks =
     foldl dup_group_step
       \<lparr>final_duplicates = [], reported_locations = {}, smells = code_smells0\<rparr> blocks"

definition analyze_duplicated_code ::
  "(int \<times> occurrence list) list \<Rightarrow> (string \<times> finding list) list
     \<Rightarrow> report_block list \<times> (string \<times> finding list) list" where
  "analyze_duplicated_code blocks code_smells0 =
     (let st = dup_loop code_smells0 blocks
      in (sort_reverse (\<lambda>x. (rb_lines x, rb_tokens x)) (final_duplicates st), smells st))"

text \<open>The locations of a report, as (file, start line) pairs.\<close>

definition location_keys :: "report_block \<Rightarrow> (string \<times> int) list" where
  "location_keys rb = map (\<lambda>loc. (file_path loc, start_line loc)) (rb_files rb)"

text \<open>The (file, start line) pairs of the occurrences of a hash group.\<close>

definition occurrence_keys :: "int \<times> occurrence list \<Rightarrow> (string \<times> int) set" where
  "occurrence_keys entry = set (map (\<lambda>occ. (occ_file occ, occ_start_line occ)) (snd entry))"

text \<open>
  A hash group reaches the location loop when it has more than one occurrence and the
  first of them spans at least five lines.
\<close>

definition group_processed :: "int \<times> occurrence list \<Rightarrow> bool" where
  "group_processed entry =
     (case snd entry of [] \<Rightarrow> False
      | r # others \<Rightarrow> others \<noteq> [] \<and> \<not> occ_end_line r - occ_start_line r + 1 < 5)"

text \<open>A file whose first clean window starts on its third line.\<close>

definition dup_example_content :: string where
  "dup_example_content =
     ''# header comment'' @ [NL] @ [NL] @
     ''alpha_value = compute_alpha(input_data)'' @ [NL] @
     ''beta_value = compute_beta(input_data)'' @ [NL] @
     ''# a comment in the middle'' @ [NL] @
     ''gamma_value = compute_gamma(input_data)'' @ [NL] @
     ''delta_value = compute_delta(input_data)'' @ [NL] @
     ''epsilon_value = compute_epsilon(input_data)''"

definition dup_example_block :: string where
  "dup_example_block =
     ''alpha_value = compute_alpha(input_data)'' @ [NL] @
     ''beta_value = compute_beta(input_data)'' @ [NL] @
     ''gamma_value = compute_gamma(input_data)'' @ [NL] @
     ''delta_value = compute_delta(input_data)'' @ [NL] @
     ''epsilon_value = compute_epsilon(input_data)''"

text \<open>Three hash groups; the third shares a location with the first and one with the second.\<close>

definition dup_example_blocks :: "(int \<times> occurrence list) list" where
  "dup_example_blocks =
     [(11, [\<lparr>occ_file = ''a.py'', occ_start_line = 1, occ_end_line = 5, occ_content = dup_example_block\<rparr>,
            \<lparr>occ_file = ''b.py'', occ_start_line = 7, occ_end_line = 11, occ_content = dup_example_block\<rparr>]),
      (12, [\<lparr>occ_file = ''c.py'', occ_start_line = 3, occ_end_line = 7, occ_content = dup_example_block\<rparr>]),
      (13, [\<lparr>occ_file = ''a.py'', occ_start_line = 1, occ_end_line = 5, occ_content = dup_example_block\<rparr>,
            \<lparr>occ_file = ''c.py'', occ_start_line = 3, occ_end_line = 7, occ_content = dup_example_block\<rparr>,
            \<lparr>occ_file = ''d.py'', occ_start_line = 2, occ_end_line = 6, occ_content = dup_example_block\<rparr>])]"

text \<open>A recorded occurrence is a window of five clean lines of the file.\<close>

definition window_of :: "string \<Rightarrow> string list \<Rightarrow> occurrence \<Rightarrow> bool" where
  "window_of fp clean occ =
     (\<exists>i. i + 5 \<le> length clean
        \<and> occ_file occ = fp
        \<and> occ_start_line occ = int i + 1
        \<and> occ_end_line occ = int i + 5
        \<and> occ_content occ = join_nl (take 5 (drop i clean)))"

abbreviation lkeys :: "location list \<Rightarrow> (string \<times> int) list" where
  "lkeys locs \<equiv> map (\<lambda>loc. (file_path loc, start_line loc)) locs"

abbreviation okeys :: "occurrence list \<Rightarrow> (string \<times> int) set" where
  "okeys occs \<equiv> set (map (\<lambda>occ. (occ_file occ, occ_start_line occ)) occs)"

text \<open>The invariant of the loop over the hash groups.\<close>

definition dup_inv :: "dup_state \<Rightarrow> bool" where
  "dup_inv st = ((\<forall>rb \<in> set (final_duplicates st). 2 \<le> length (rb_files rb))
     \<and> distinct (concat (map location_keys (final_duplicates st)))
     \<and> set (concat (map location_keys (final_duplicates st))) \<subseteq> reported_locations st)"

section \<open>Analyzer state\<close>

record file_metric =
  fm_loc :: int
  fm_comment_lines :: int
  fm_comment_density :: real
  fm_avg_line_length :: real

record function_metric =
  fn_name :: string
  fn_params :: int
  fn_lines :: int
  fn_complexity :: int
  fn_line :: int

text \<open>
  The dictionary \<open>results['complexity_metrics']\<close> once it is filled.  Python floats
  are modelled as exact reals: rounding of the floating-point operations is not part
  of the model.
\<close>

record project_metrics =
  pm_total_lines_of_code :: int
  pm_total_comment_lines :: int
  pm_comment_density :: real
  pm_avg_line_length :: real
  pm_code_smell_count :: nat
  pm_security_issue_count :: nat
  pm_performance_issue_count :: nat
  pm_style_issue_count :: nat
  pm_avg_function_complexity :: real
  pm_avg_function_size :: real
  pm_avg_function_params :: real
  pm_duplicated_code_blocks :: nat
  pm_maintainability_index :: real
  pm_maintainability_rating :: string
  pm_technical_debt_hours :: real
  pm_technical_debt_days :: real

text \<open>
  The fields of \<open>AdvancedCodeAnalyzer\<close> that the analysis reads and writes
  (\<open>token_stats\<close>, \<open>best_practices\<close> and the progress callback are left out).
  \<open>complexity_metrics\<close> is \<open>None\<close> while the dictionary is still \<open>{}\<close>.
  A \<open>defaultdict(set)\<close> is a function into sets, a plain \<open>dict\<close> an association list.
\<close>

record analyzer =
  code_smells :: "(string \<times> finding list) list"
  security_issues :: "(string \<times> finding list) list"
  performance_issues :: "(string \<times> finding list) list"
  style_issues :: "(string \<times> finding list) list"
  complexity_metrics :: "project_metrics option"
  dependencies :: "string \<Rightarrow> string set"
  duplicated_code :: "report_block list"
  duplicated_blocks :: "(int \<times> occurrence list) list"
  file_metrics :: "(string \<times> file_metric) list"
  function_metrics :: "(string \<times> (string \<times> function_metric) list) list"
  import_graph :: "string \<Rightarrow> string set"

text \<open>\<open>__init__\<close>\<close>

definition new_analyzer :: analyzer where
  "new_analyzer =
     \<lparr>code_smells = [], security_issues = [], performance_issues = [], style_issues = [],
      complexity_metrics = None, dependencies = (\<lambda>_. {}), duplicated_code = [],
      duplicated_blocks = [], file_metrics = [], function_metrics = [],
      import_graph = (\<lambda>_. {})\<rparr>"

text \<open>\<open>d[k] = v\<close> on a \<open>dict\<close>: an existing key keeps its position.\<close>

fun dict_set :: "('k \<times> 'v) list \<Rightarrow> 'k \<Rightarrow> 'v \<Rightarrow> ('k \<times> 'v) list" where
  "dict_set [] k v = [(k, v)]"
| "dict_set ((k', v') # d) k v = (if k' = k then (k', v) # d else (k', v') # dict_set d k v)"

section \<open>Aggregate metrics: \<open>_calculate_project_metrics\<close>\<close>

text \<open>True division; \<open>None\<close> stands for \<open>ZeroDivisionError\<close>.\<close>

definition py_truediv :: "real \<Rightarrow> real \<Rightarrow> real option" where
  "py_truediv a b = (if b = 0 then None else Some (a / b))"

text \<open>
  \<open>round(x, 1)\<close>: the nearest multiple of one tenth, a tie going to the even tenth.
\<close>

definition py_round1 :: "real \<Rightarrow> real" where
  "py_round1 x =
     (let y = x * 10; f = \<lfloor>y\<rfloor>; d = y - of_int f
      in (if d < 1 / 2 then of_int f
          else if 1 / 2 < d then of_int f + 1
          else if even f then of_int f else of_int f + 1) / 10)"

definition issue_weights :: "string \<Rightarrow> int option" where
  "issue_weights sev =
     (if sev = ''critical'' then Some 8
      else if sev = ''high'' then Some 4
      else if sev = ''medium'' then Some 2
      else if sev = ''low'' then Some 1
      else None)"

text \<open>\<open>issue_weights.get(sev, default)\<close>; every Finding of the analyzer has a severity.\<close>

definition weights_get :: "string \<Rightarrow> int \<Rightarrow> int" where
  "weights_get sev dflt = (case issue_weights sev of Some w \<Rightarrow> w | None \<Rightarrow> dflt)"

text \<open>The two shapes of the debt loops, over all issues of a category.\<close>

definition debt_plain :: "real \<Rightarrow> (string \<times> finding list) list \<Rightarrow> real" where
  "debt_plain total_debt_hours d =
     foldl (\<lambda>t issue. t + real_of_int (weights_get (f_severity issue) 2)) total_debt_hours
       (dd_values d)"

definition debt_security :: "real \<Rightarrow> (string \<times> finding list) list \<Rightarrow> real" where
  "debt_security total_debt_hours d =
     foldl (\<lambda>t issue. t + real_of_int (weights_get (f_severity issue) 4) * 1.5) total_debt_hours
       (dd_values d)"

definition rating_of :: "real \<Rightarrow> string" where
  "rating_of rating_value =
     (if rating_value \<ge> 80 then ''Excellent''
      else if rating_value \<ge> 60 then ''Good''
      else if rating_value \<ge> 40 then ''Fair''
      else if rating_value \<ge> 20 then ''Poor''
      else ''Very Poor'')"

text \<open>\<open>sum(...) / len(all_functions) if all_functions else 0\<close>\<close>

definition function_average :: "(function_metric \<Rightarrow> int) \<Rightarrow> function_metric list \<Rightarrow> real option" where
  "function_average field all_functions =
     (if all_functions \<noteq> []
      then py_truediv (real_of_int (sum_list (map field all_functions)))
             (real (length all_functions))
      else Some 0)"

text \<open>
  \<open>_calculate_project_metrics\<close>: the new analyzer state, or \<open>None\<close> when a division
  raises.  With no file metrics the method returns at once.
\<close>

definition calculate_project_metrics :: "analyzer \<Rightarrow> analyzer option" where
  "calculate_project_metrics st =
     (if file_metrics st = [] then Some st
      else do {
        let total_loc = sum_list (map (\<lambda>m. fm_loc (snd m)) (file_metrics st));
        let total_comment_lines = sum_list (map (\<lambda>m. fm_comment_lines (snd m)) (file_metrics st));
        avg_comment_density \<leftarrow>
          (if total_loc > 0
           then py_truediv (real_of_int total_comment_lines) (real_of_int total_loc)
           else Some 0);
        avg_line_length \<leftarrow>
          (if total_loc > 0
           then py_truediv
                  (sum_list (map (\<lambda>m. fm_avg_line_length (snd m) * real_of_int (fm_loc (snd m)))
                     (file_metrics st)))
                  (real_of_int total_loc)
           else Some 0);
        let all_functions = concat (map (\<lambda>file_funcs. map snd (snd file_funcs)) (function_metrics st));
        avg_function_complexity \<leftarrow> function_average fn_complexity all_functions;
        avg_function_size \<leftarrow> function_average fn_lines all_functions;
        avg_function_params \<leftarrow> function_average fn_params all_functions;
        let maintainability =
              171 - 5.2 * (avg_function_complexity - 1) - 0.23 * avg_line_length
              - 16.2 * (real_of_int total_loc / 1000) + 50 * avg_comment_density;
        let index = min 100 (max 0 maintainability);
        let total_debt_hours =
              debt_plain (debt_security (debt_plain 0 (code_smells st)) (security_issues st))
                (performance_issues st)
              + real (length (duplicated_code st)) * 3;
        Some (st\<lparr>complexity_metrics := Some
          \<lparr>pm_total_lines_of_code = total_loc,
           pm_total_comment_lines = total_comment_lines,
           pm_comment_density = avg_comment_density,
           pm_avg_line_length = avg_line_length,
           pm_code_smell_count = length (dd_values (code_smells st)),
           pm_security_issue_count = length (dd_values (security_issues st)),
           pm_performance_issue_count = length (dd_values (performance_issues st)),
           pm_style_issue_count = length (dd_values (style_issues st)),
           pm_avg_function_complexity = avg_function_complexity,
           pm_avg_function_size = avg_function_size,
           pm_avg_function_params = avg_function_params,
           pm_duplicated_code_blocks = length (duplicated_code st),
           pm_maintainability_index = index,
           pm_maintainability_rating = rating_of index,
           pm_technical_debt_hours = total_debt_hours,
           pm_technical_debt_days = py_round1 (total_debt_hours / 8)\<rparr>\<rparr>)
      })"


definition spec_weight :: "finding \<Rightarrow> real" where
  "spec_weight f = real_of_int (case issue_weights (f_severity f) of Some w \<Rightarrow> w | None \<Rightarrow> 0)"

definition spec_technical_debt_hours :: "analyzer \<Rightarrow> real" where
  "spec_technical_debt_hours st =
     sum_list (map spec_weight (dd_values (code_smells st)))
     + sum_list (map (\<lambda>f. spec_weight f * 1.5) (dd_values (security_issues st)))
     + sum_list (map spec_weight (dd_values (performance_issues st)))
     + sum_list (map spec_weight (dd_values (style_issues st)))
     + 3 * real (length (duplicated_code st))"

text \<open>Example states of the aggregate step.\<close>

definition example_file_metric :: file_metric where
  "example_file_metric =
     \<lparr>fm_loc = 10, fm_comment_lines = 2, fm_comment_density = 0.2, fm_avg_line_length = 20\<rparr>"

definition critical_security_finding :: finding where
  "critical_security_finding =
     \<lparr>f_type = ''hardcoded_credentials'', f_description = ''Hardcoded credentials or API keys'',
      f_severity = ''critical'', f_line = 1, f_context = Some ''password = \"hunter2\"''\<rparr>"

definition one_security_state :: analyzer where
  "one_security_state =
     new_analyzer\<lparr>security_issues := [(''a.py'', [critical_security_finding])],
                  file_metrics := [(''a.py'', example_file_metric)]\<rparr>"

definition long_line_finding :: finding where
  "long_line_finding =
     \<lparr>f_type = ''long_line'', f_description = ''Line exceeds 100 characters'',
      f_severity = ''low'', f_line = 1, f_context = None\<rparr>"

definition one_style_state :: analyzer where
  "one_style_state =
     new_analyzer\<lparr>style_issues := [(''a.py'', [long_line_finding])],
                  file_metrics := [(''a.py'', example_file_metric)]\<rparr>"


text \<open>Observations of an analyzer state used in the statements below.\<close>

definition all_functions_of :: "analyzer \<Rightarrow> function_metric list" where
  "all_functions_of st = concat (map (\<lambda>file_funcs. map snd (snd file_funcs)) (function_metrics st))"

definition total_loc_of :: "analyzer \<Rightarrow> int" where
  "total_loc_of st = sum_list (map (\<lambda>m. fm_loc (snd m)) (file_metrics st))"

definition debt_hours_of :: "analyzer \<Rightarrow> real option" where
  "debt_hours_of st =
     (case calculate_project_metrics st of None \<Rightarrow> None
      | Some st' \<Rightarrow> map_option pm_technical_debt_hours (complexity_metrics st'))"

section \<open>Python syntax trees\<close>

text \<open>
  The attributes of a function definition that the analyzer reads.
  \<open>fa_posonlyargs\<close> is \<open>None\<close> when \<open>node.args\<close> has no attribute \<open>posonlyargs\<close>
  (trees of interpreters older than 3.8); \<open>fa_end_lineno\<close> is 0 when \<open>end_lineno\<close> is
  missing or \<open>None\<close>.
\<close>

record func_attrs =
  fa_name :: string
  fa_args :: nat
  fa_posonlyargs :: "nat option"
  fa_kwonlyargs :: nat
  fa_vararg :: bool
  fa_kwarg :: bool
  fa_end_lineno :: int
  fa_body_len :: nat

datatype boolop = And | Or

text \<open>
  The node classes the analyzer tests with \<open>isinstance\<close>; every other class is
  \<open>Other\<close>.  \<open>Import\<close> carries the names of its aliases, \<open>ImportFrom\<close> its module.
\<close>

datatype kind =
    Module
  | FunctionDef func_attrs
  | AsyncFunctionDef func_attrs
  | If | For | While | With | Try | AsyncFor | AsyncWith
  | ExceptHandler
  | BoolOp boolop
  | Import "string list"
  | ImportFrom "string option"
  | Other

text \<open>
  A node with its line number (0 where the class has none) and its child nodes in
  the order of \<open>ast.iter_child_nodes\<close>.  The marker objects of the tree (expression
  contexts, operators) are child nodes too, leaves of kind \<open>Other\<close>.  Only the operator
  of a \<open>BoolOp\<close> is not in the list, so that the children of a \<open>BoolOp\<close> are its
  \<open>values\<close>: the parser gives every \<open>BoolOp\<close> at least two values, which stand on the
  level of the operator, and no test of the analyzer matches an operator, so the walks
  find the same nodes and reach the same depth.
\<close>

datatype node = Node (node_kind: kind) (lineno: int) (child_nodes: "node list")

fun node_count :: "node \<Rightarrow> nat" where
  "node_count (Node k l cs) = Suc (sum_list (map node_count cs))"

text \<open>\<open>ast.walk\<close>: breadth first, with a queue.\<close>

function walk_queue :: "node list \<Rightarrow> node list" where
  "walk_queue [] = []"
| "walk_queue (n # todo) = n # walk_queue (todo @ child_nodes n)"
  by pat_completeness auto
termination
proof (relation "measure (\<lambda>todo. sum_list (map node_count todo))")
  show "wf (measure (\<lambda>todo. sum_list (map node_count todo)))"
    by simp
next
  fix n :: node and todo :: "node list"
  show "(todo @ child_nodes n, n # todo) \<in> measure (\<lambda>todo. sum_list (map node_count todo))"
    by (cases n) simp
qed

definition ast_walk :: "node \<Rightarrow> node list" where
  "ast_walk n = walk_queue [n]"

text \<open>The nodes of a tree, the root first.\<close>

fun subtree :: "node \<Rightarrow> node list" where
  "subtree (Node k l cs) = Node k l cs # concat (map subtree cs)"

text \<open>The number of nodes on the longest path from the root to a leaf.\<close>

fun height :: "node \<Rightarrow> nat" where
  "height (Node k l cs) = Suc (foldr max (map height cs) 0)"

section \<open>Structural analyzer\<close>

text \<open>Exceptions, by the \<open>except\<close> clause of \<open>_analyze_python_file\<close> that catches them.\<close>

datatype py_error =
    SyntaxError int string
  | AttributeError string
  | OtherError string

datatype parse_result = Parsed node | ParseRaised py_error

text \<open>
  What the analyzer takes from the interpreter and its library: the parser
  \<open>ast.parse\<close>, \<open>ast.unparse\<close> (\<open>None\<close> when it is missing or raises), the regex engine
  (for a pattern and a text, the start offset and the first group of each match, in
  order), the number of nested calls of \<open>_check_python_nesting\<close> the interpreter allows
  before it raises \<open>RecursionError\<close>, and the string hash of the process.
\<close>

record environment =
  ast_parse :: "string \<Rightarrow> parse_result"
  ast_unparse :: "node \<Rightarrow> string option"
  re_finditer :: "string \<Rightarrow> string \<Rightarrow> (nat \<times> string) list"
  recursion_limit :: nat
  str_hash :: "string \<Rightarrow> int"

text \<open>\<open>d[k].add(v)\<close> on a \<open>defaultdict(set)\<close>.\<close>

definition set_add :: "(string \<Rightarrow> string set) \<Rightarrow> string \<Rightarrow> string \<Rightarrow> (string \<Rightarrow> string set)" where
  "set_add d k v = d(k := insert v (d k))"

text \<open>\<open>d[k1][k2] = v\<close> on a \<open>defaultdict(dict)\<close>.\<close>

fun nested_set ::
  "(string \<times> (string \<times> 'v) list) list \<Rightarrow> string \<Rightarrow> string \<Rightarrow> 'v
     \<Rightarrow> (string \<times> (string \<times> 'v) list) list" where
  "nested_set [] k1 k2 v = [(k1, [(k2, v)])]"
| "nested_set ((k, d) # ds) k1 k2 v =
     (if k = k1 then (k, dict_set d k2 v) # ds else (k, d) # nested_set ds k1 k2 v)"

subsection \<open>\<open>_analyze_python_imports\<close>\<close>

definition add_import :: "string \<Rightarrow> analyzer \<Rightarrow> string \<Rightarrow> analyzer" where
  "add_import fp st name =
     st\<lparr>import_graph := set_add (import_graph st) fp name,
        dependencies := set_add (dependencies st) fp name\<rparr>"

definition import_step :: "string \<Rightarrow> analyzer \<Rightarrow> node \<Rightarrow> analyzer" where
  "import_step fp st n =
     (case node_kind n of
        Import names \<Rightarrow> foldl (add_import fp) st names
      | ImportFrom node_module \<Rightarrow>
          (case node_module of None \<Rightarrow> st
           | Some module_name \<Rightarrow> if module_name = [] then st else add_import fp st module_name)
      | _ \<Rightarrow> st)"

definition analyze_python_imports :: "node \<Rightarrow> string \<Rightarrow> analyzer \<Rightarrow> analyzer" where
  "analyze_python_imports tree fp st = foldl (import_step fp) st (ast_walk tree)"

subsection \<open>\<open>_check_python_nesting\<close>\<close>

definition is_nesting_kind :: "kind \<Rightarrow> bool" where
  "is_nesting_kind k = (k \<in> {If, For, While, With, Try, AsyncFor, AsyncWith})"

definition nesting_finding :: "string \<Rightarrow> int \<Rightarrow> int \<Rightarrow> finding" where
  "nesting_finding func_name current_depth line =
     \<lparr>f_type = ''deep_nesting'',
      f_description = ''Deep nesting (level '' @ str_int current_depth @ '') in function ''
         @ [CHR 0x27] @ func_name @ [CHR 0x27],
      f_severity = ''high'', f_line = line, f_context = None\<rparr>"

text \<open>
  The recursive walk.  The first argument counts the calls that may still be nested;
  at 0 the interpreter raises \<open>RecursionError\<close>.  The code smells appended so far stay
  appended when the walk raises.
\<close>

fun check_python_nesting ::
    "nat \<Rightarrow> node \<Rightarrow> string \<Rightarrow> string \<Rightarrow> int \<Rightarrow> (string \<times> finding list) list
       \<Rightarrow> py_error option \<times> (string \<times> finding list) list"
  and check_children ::
    "nat \<Rightarrow> node list \<Rightarrow> string \<Rightarrow> string \<Rightarrow> int \<Rightarrow> (string \<times> finding list) list
       \<Rightarrow> py_error option \<times> (string \<times> finding list) list" where
  "check_python_nesting 0 n func_name fp current_depth sm =
     (Some (OtherError ''RecursionError''), sm)"
| "check_python_nesting (Suc frames) n func_name fp current_depth sm =
     (if is_nesting_kind (node_kind n)
      then let depth1 = current_depth + 1
           in check_children frames (child_nodes n) func_name fp depth1
                (if depth1 > 4 then dd_append sm fp (nesting_finding func_name depth1 (lineno n))
                 else sm)
      else check_children frames (child_nodes n) func_name fp current_depth sm)"
| "check_children frames [] func_name fp current_depth sm = (None, sm)"
| "check_children frames (c # cs) func_name fp current_depth sm =
     (case check_python_nesting frames c func_name fp current_depth sm of
        (Some e, sm') \<Rightarrow> (Some e, sm')
      | (None, sm') \<Rightarrow> check_children frames cs func_name fp current_depth sm')"

text \<open>
  The control-flow nodes of a tree deeper than four levels, with their line and level,
  in the order of the walk.
\<close>

fun deep_nodes :: "int \<Rightarrow> node \<Rightarrow> (int \<times> int) list" where
  "deep_nodes d (Node k l cs) =
     (if is_nesting_kind k
      then (if d + 1 > 4 then [(l, d + 1)] else []) @ concat (map (deep_nodes (d + 1)) cs)
      else concat (map (deep_nodes d) cs))"

subsection \<open>\<open>_analyze_python_functions\<close>\<close>

text \<open>The complexity loop over \<open>ast.walk(node)\<close>.\<close>

definition complexity_step :: "int \<Rightarrow> node \<Rightarrow> int" where
  "complexity_step complexity inner_node =
     (if node_kind inner_node \<in> {If, While, For, Try, AsyncFor} then complexity + 1
      else if node_kind inner_node = BoolOp And
        then complexity + (int (length (child_nodes inner_node)) - 1)
      else complexity)"

definition complexity_of :: "node \<Rightarrow> int" where
  "complexity_of n = foldl complexity_step 1 (ast_walk n)"

definition quoted :: "string \<Rightarrow> string" where
  "quoted s = [CHR 0x27] @ s @ [CHR 0x27]"

definition too_many_parameters_finding :: "string \<Rightarrow> int \<Rightarrow> int \<Rightarrow> finding" where
  "too_many_parameters_finding func_name params_count line_num =
     \<lparr>f_type = ''too_many_parameters'',
      f_description = ''Function '' @ quoted func_name @ '' has '' @ str_int params_count
         @ '' parameters'',
      f_severity = ''medium'', f_line = line_num, f_context = None\<rparr>"

definition long_function_finding :: "string \<Rightarrow> int \<Rightarrow> int \<Rightarrow> finding" where
  "long_function_finding func_name lines_of_code line_num =
     \<lparr>f_type = ''long_function'',
      f_description = ''Function '' @ quoted func_name @ '' is approx. '' @ str_int lines_of_code
         @ '' lines long'',
      f_severity = ''medium'', f_line = line_num, f_context = None\<rparr>"

definition high_complexity_finding :: "string \<Rightarrow> int \<Rightarrow> int \<Rightarrow> finding" where
  "high_complexity_finding func_name complexity line_num =
     \<lparr>f_type = ''high_complexity'',
      f_description = ''Function '' @ quoted func_name @ '' has high cyclomatic complexity (''
         @ str_int complexity @ '')'',
      f_severity = ''medium'', f_line = line_num, f_context = None\<rparr>"

text \<open>The key of a function in the metrics of its file: its name, an at sign, its line.\<close>

definition func_key :: "string \<Rightarrow> int \<Rightarrow> string" where
  "func_key func_name line_num = func_name @ ''@'' @ str_int line_num"

text \<open>
  The body of the loop for one function definition.  Reading \<open>posonlyargs\<close> raises
  \<open>AttributeError\<close> where the attribute does not exist; the nesting check may raise
  after the smells and the metrics of the function are stored.
\<close>

definition function_body ::
  "environment \<Rightarrow> string \<Rightarrow> analyzer \<Rightarrow> node \<Rightarrow> func_attrs \<Rightarrow> py_error option \<times> analyzer" where
  "function_body E fp st n a =
     (case fa_posonlyargs a of
        None \<Rightarrow>
          (Some (AttributeError
             (quoted ''arguments'' @ '' object has no attribute '' @ quoted ''posonlyargs'')), st)
      | Some posonly \<Rightarrow>
          let func_name = fa_name a;
              line_num = lineno n;
              params_count = int (fa_args a) + int posonly + int (fa_kwonlyargs a)
                  + (if fa_vararg a then 1 else 0) + (if fa_kwarg a then 1 else 0);
              lines_of_code =
                (if lineno n \<noteq> 0 \<and> fa_end_lineno a \<noteq> 0
                 then (fa_end_lineno a - lineno n) + 1
                 else (case ast_unparse E n of
                         Some src \<Rightarrow> int (length (split_nl src))
                       | None \<Rightarrow> int (fa_body_len a) + 2));
              sm1 = (if params_count > 5
                     then dd_append (code_smells st) fp
                            (too_many_parameters_finding func_name params_count line_num)
                     else code_smells st);
              sm2 = (if lines_of_code > 50
                     then dd_append sm1 fp (long_function_finding func_name lines_of_code line_num)
                     else sm1);
              complexity = complexity_of n;
              sm3 = (if complexity > 10
                     then dd_append sm2 fp (high_complexity_finding func_name complexity line_num)
                     else sm2);
              metrics = nested_set (function_metrics st) fp (func_key func_name line_num)
                          \<lparr>fn_name = func_name, fn_params = params_count,
                           fn_lines = lines_of_code, fn_complexity = complexity,
                           fn_line = line_num\<rparr>
          in (case check_python_nesting (recursion_limit E) n func_name fp 0 sm3 of
                (err, sm4) \<Rightarrow> (err, st\<lparr>code_smells := sm4, function_metrics := metrics\<rparr>)))"

definition function_step ::
  "environment \<Rightarrow> string \<Rightarrow> analyzer \<Rightarrow> node \<Rightarrow> py_error option \<times> analyzer" where
  "function_step E fp st n =
     (case node_kind n of
        FunctionDef a \<Rightarrow> function_body E fp st n a
      | AsyncFunctionDef a \<Rightarrow> function_body E fp st n a
      | _ \<Rightarrow> (None, st))"

text \<open>The loop over \<open>ast.walk(tree)\<close>; an exception ends it.\<close>

fun functions_loop ::
  "environment \<Rightarrow> string \<Rightarrow> node list \<Rightarrow> analyzer \<Rightarrow> py_error option \<times> analyzer" where
  "functions_loop E fp [] st = (None, st)"
| "functions_loop E fp (n # ns) st =
     (case function_step E fp st n of
        (Some e, st') \<Rightarrow> (Some e, st')
      | (None, st') \<Rightarrow> functions_loop E fp ns st')"

definition analyze_python_functions ::
  "environment \<Rightarrow> node \<Rightarrow> string \<Rightarrow> analyzer \<Rightarrow> py_error option \<times> analyzer" where
  "analyze_python_functions E tree fp st = functions_loop E fp (ast_walk tree) st"

subsection \<open>Regex rule tables\<close>

text \<open>
  A regular expression is written with \<open>%\<close> in the place of each backslash of the
  source; \<open>rx\<close> gives the pattern string.
\<close>

definition rx :: "string \<Rightarrow> string" where
  "rx s = map (\<lambda>c. if c = CHR ''%'' then CHR 0x5C else c) s"

record pattern =
  p_name :: string
  p_description :: string
  p_severity :: string
  p_regex :: string

definition PYTHON_ANTI_PATTERNS :: "pattern list" where
  "PYTHON_ANTI_PATTERNS =
     [\<lparr>p_name = ''bare_except'', p_description = ''Using bare except: statements'',
       p_severity = ''high'', p_regex = rx ''except%s*:''\<rparr>,
      \<lparr>p_name = ''import_star'', p_description = ''Using from module import *'',
       p_severity = ''medium'', p_regex = rx ''from%s+%w+%s+import%s+%*''\<rparr>,
      \<lparr>p_name = ''mutable_default'', p_description = ''Using mutable default arguments'',
       p_severity = ''medium'', p_regex = rx ''def%s+%w+%s*%([^)]*=%s*(%[%]|%{%}|%(%))''\<rparr>,
      \<lparr>p_name = ''eval_usage'', p_description = ''Using eval() function'',
       p_severity = ''high'', p_regex = rx ''eval%s*%(''\<rparr>]"

text \<open>\<open>content[:start].count('\n') + 1\<close>\<close>

definition line_of :: "string \<Rightarrow> nat \<Rightarrow> nat" where
  "line_of content start = length (filter (\<lambda>c. c = NL) (take start content)) + 1"

subsection \<open>\<open>_apply_regex_patterns\<close> (into the code smells)\<close>

definition regex_finding_ctx :: "pattern \<Rightarrow> string \<Rightarrow> nat \<Rightarrow> finding" where
  "regex_finding_ctx p content start =
     (let line_num = line_of content start;
          lines = split_nl content;
          context_line = (if line_num \<le> length lines then strip (lines ! (line_num - 1)) else [])
      in \<lparr>f_type = p_name p, f_description = p_description p, f_severity = p_severity p,
          f_line = int line_num, f_context = Some context_line\<rparr>)"

definition apply_regex_patterns ::
  "environment \<Rightarrow> pattern list \<Rightarrow> string \<Rightarrow> string \<Rightarrow> (string \<times> finding list) list
     \<Rightarrow> (string \<times> finding list) list" where
  "apply_regex_patterns E patterns fp content sm =
     foldl (\<lambda>s p. foldl (\<lambda>s' m. dd_append s' fp (regex_finding_ctx p content (fst m))) s
                      (re_finditer E (p_regex p) content))
       sm patterns"

subsection \<open>\<open>_analyze_python_with_regex\<close>\<close>

definition regex_finding :: "pattern \<Rightarrow> string \<Rightarrow> nat \<Rightarrow> finding" where
  "regex_finding p content start =
     \<lparr>f_type = p_name p, f_description = p_description p, f_severity = p_severity p,
      f_line = int (line_of content start), f_context = None\<rparr>"

definition regex_smells ::
  "environment \<Rightarrow> pattern list \<Rightarrow> string \<Rightarrow> string \<Rightarrow> (string \<times> finding list) list
     \<Rightarrow> (string \<times> finding list) list" where
  "regex_smells E patterns fp content sm =
     foldl (\<lambda>s p. foldl (\<lambda>s' m. dd_append s' fp (regex_finding p content (fst m))) s
                      (re_finditer E (p_regex p) content))
       sm patterns"

text \<open>\<open>match.group(1).split(' as ')[0].strip()\<close>\<close>

definition import_target :: "string \<Rightarrow> string" where
  "import_target g = strip (case py_find '' as '' g of None \<Rightarrow> g | Some k \<Rightarrow> take k g)"

definition regex_dependencies ::
  "environment \<Rightarrow> string \<Rightarrow> string \<Rightarrow> string \<Rightarrow> (string \<Rightarrow> string set) \<Rightarrow> (string \<Rightarrow> string set)" where
  "regex_dependencies E regex fp content deps =
     foldl (\<lambda>d m. let dependency = import_target (snd m)
                    in if dependency \<noteq> [] then set_add d fp dependency else d)
       deps (re_finditer E regex content)"

definition analyze_python_with_regex ::
  "environment \<Rightarrow> string \<Rightarrow> string \<Rightarrow> analyzer \<Rightarrow> analyzer" where
  "analyze_python_with_regex E fp content st =
     st\<lparr>code_smells := regex_smells E PYTHON_ANTI_PATTERNS fp content (code_smells st),
        dependencies := regex_dependencies E (rx ''(?:from|import)%s+([%w%.]+)'') fp content
                          (dependencies st)\<rparr>"

subsection \<open>\<open>_analyze_python_file\<close>\<close>

text \<open>The style Finding of each \<open>except\<close> clause.\<close>

fun failure_finding :: "py_error \<Rightarrow> finding" where
  "failure_finding (SyntaxError e_lineno msg) =
     \<lparr>f_type = ''syntax_error'',
      f_description = ''Python syntax error prevents AST analysis (line '' @ str_int e_lineno
         @ '': '' @ msg @ '')'',
      f_severity = ''warning'', f_line = e_lineno, f_context = None\<rparr>"
| "failure_finding (AttributeError ae) =
     \<lparr>f_type = ''ast_feature_error'',
      f_description = ''AST analysis failed ('' @ ae @ ''). Analysis may be incomplete.'',
      f_severity = ''warning'', f_line = 1, f_context = None\<rparr>"
| "failure_finding (OtherError type_name) =
     \<lparr>f_type = ''ast_processing_error'',
      f_description = ''Unexpected AST processing error: '' @ type_name @ ''.'',
      f_severity = ''error'', f_line = 1, f_context = None\<rparr>"

text \<open>An \<open>except\<close> clause: the style Finding, then the regex fallback.\<close>

definition handle_failure :: "environment \<Rightarrow> string \<Rightarrow> string \<Rightarrow> py_error \<Rightarrow> analyzer \<Rightarrow> analyzer" where
  "handle_failure E fp content e st =
     analyze_python_with_regex E fp content
       (st\<lparr>style_issues := dd_append (style_issues st) fp (failure_finding e)\<rparr>)"

text \<open>
  \<open>_analyze_python_file\<close>: the return value and the new state.  The parser and the
  two walks run inside the \<open>try\<close>; what the walks stored before an exception stays
  stored.
\<close>

definition analyze_python_file ::
  "environment \<Rightarrow> string \<Rightarrow> string \<Rightarrow> analyzer \<Rightarrow> bool \<times> analyzer" where
  "analyze_python_file E fp content st =
     (case ast_parse E content of
        ParseRaised e \<Rightarrow> (False, handle_failure E fp content e st)
      | Parsed tree \<Rightarrow>
          (case analyze_python_functions E tree fp (analyze_python_imports tree fp st) of
             (Some e, st2) \<Rightarrow> (False, handle_failure E fp content e st2)
           | (None, st2) \<Rightarrow>
               (True, st2\<lparr>code_smells :=
                  apply_regex_patterns E PYTHON_ANTI_PATTERNS fp content (code_smells st2)\<rparr>)))"

subsection \<open>Statements about the structural analyzer\<close>

definition step_weight :: "node \<Rightarrow> int" where
  "step_weight m =
     (if node_kind m \<in> {If, While, For, Try, AsyncFor} then 1
      else if node_kind m = BoolOp And then int (length (child_nodes m)) - 1
      else 0)"

definition is_branch :: "node \<Rightarrow> bool" where
  "is_branch m = (node_kind m \<in> {If, While, For, Try, AsyncFor})"

definition is_and_chain :: "node \<Rightarrow> bool" where
  "is_and_chain m = (node_kind m = BoolOp And)"

text \<open>One deep-nesting Finding per (line, level) pair, appended in order.\<close>

definition add_nesting ::
  "string \<Rightarrow> string \<Rightarrow> (string \<times> finding list) list \<Rightarrow> (int \<times> int) list
     \<Rightarrow> (string \<times> finding list) list" where
  "add_nesting func_name fp sm deep =
     foldl (\<lambda>s p. dd_append s fp (nesting_finding func_name (snd p) (fst p))) sm deep"

text \<open>\<open>d[k1][k2]\<close> as a lookup.\<close>

definition nested_get ::
  "(string \<times> (string \<times> 'v) list) list \<Rightarrow> string \<Rightarrow> string \<Rightarrow> 'v option" where
  "nested_get d k1 k2 = (case map_of d k1 of None \<Rightarrow> None | Some inner \<Rightarrow> map_of inner k2)"

text \<open>The deep-nesting Findings of a file.\<close>

definition deep_nesting_findings :: "analyzer \<Rightarrow> string \<Rightarrow> finding list" where
  "deep_nesting_findings st fp = filter (\<lambda>f. f_type f = ''deep_nesting'') (dd_get (code_smells st) fp)"

text \<open>
  The cyclomatic complexity as the specification words it: 1, plus one per \<open>if\<close>,
  \<open>while\<close>, \<open>for\<close>, \<open>try\<close> and exception-handling clause, plus one per operand beyond
  the first of every boolean chain.
\<close>

definition spec_branch :: "node \<Rightarrow> bool" where
  "spec_branch m = (node_kind m \<in> {If, While, For, AsyncFor, Try, ExceptHandler})"

definition spec_chain :: "node \<Rightarrow> bool" where
  "spec_chain m = (node_kind m = BoolOp And \<or> node_kind m = BoolOp Or)"

definition spec_cyclomatic :: "node \<Rightarrow> int" where
  "spec_cyclomatic n =
     1 + int (length (filter spec_branch (subtree n)))
     + (\<Sum>b\<leftarrow>filter spec_chain (subtree n). int (length (child_nodes b)) - 1)"

subsection \<open>Example trees\<close>

definition plain_attrs :: "string \<Rightarrow> int \<Rightarrow> func_attrs" where
  "plain_attrs name last_line =
     \<lparr>fa_name = name, fa_args = 0, fa_posonlyargs = Some 0, fa_kwonlyargs = 0,
      fa_vararg = False, fa_kwarg = False, fa_end_lineno = last_line, fa_body_len = 1\<rparr>"

text \<open>
  \<open>def f():\<close> with \<open>try: pass\<close> / \<open>except: pass\<close> as its body (lines 1 to 5).
\<close>

definition try_function :: node where
  "try_function =
     Node (FunctionDef (plain_attrs ''f'' 5)) 1
       [Node Other 0 [],
        Node Try 2 [Node Other 3 [], Node ExceptHandler 4 [Node Other 5 []]]]"

text \<open>
  \<open>def f(x):\<close> with \<open>if x:\<close> nested six levels deep and \<open>pass\<close> inside (lines 1 to 8);
  each \<open>if\<close> has its test, the name \<open>x\<close> with its context marker, and its body as
  children, the function its arguments and its body.
\<close>

definition six_ifs :: node where
  "six_ifs =
     Node If 2 [Node Other 2 [Node Other 0 []],
       Node If 3 [Node Other 3 [Node Other 0 []],
         Node If 4 [Node Other 4 [Node Other 0 []],
           Node If 5 [Node Other 5 [Node Other 0 []],
             Node If 6 [Node Other 6 [Node Other 0 []],
               Node If 7 [Node Other 7 [Node Other 0 []], Node Other 8 []]]]]]]"

definition six_ifs_function :: node where
  "six_ifs_function =
     Node (FunctionDef ((plain_attrs ''f'' 8)\<lparr>fa_args := 1\<rparr>)) 1
       [Node Other 0 [Node Other 1 []], six_ifs]"

definition six_ifs_module :: node where
  "six_ifs_module = Node Module 0 [six_ifs_function]"

definition six_ifs_source :: string where
  "six_ifs_source =
     ''def f(x):'' @ [NL] @
     '' if x:'' @ [NL] @
     ''  if x:'' @ [NL] @
     ''   if x:'' @ [NL] @
     ''    if x:'' @ [NL] @
     ''     if x:'' @ [NL] @
     ''      if x:'' @ [NL] @
     ''       pass'' @ [NL]"

text \<open>
  A sum of \<open>k + 1\<close> constants on line 3: \<open>k\<close> binary operations nested to the left,
  each with its left operand, its operator and its right operand.
\<close>

fun deep_expression :: "nat \<Rightarrow> node" where
  "deep_expression 0 = Node Other 3 []"
| "deep_expression (Suc k) = Node Other 3 [deep_expression k, Node Other 0 [], Node Other 3 []]"

text \<open>
  \<open>import os\<close>, then \<open>def g():\<close> whose body is \<open>return\<close> with a sum of 1001 constants.
\<close>

definition deep_module :: node where
  "deep_module =
     Node Module 0
       [Node (Import [''os'']) 1 [Node Other 1 []],
        Node (FunctionDef (plain_attrs ''g'' 3)) 2
          [Node Other 0 [], Node Other 3 [deep_expression 1000]]]"

text \<open>
  An interpreter whose parser returns the given tree, whose regex engine finds no
  match, and which allows 1000 nested calls.
\<close>

definition tree_env :: "node \<Rightarrow> environment" where
  "tree_env tree =
     \<lparr>ast_parse = (\<lambda>content. Parsed tree), ast_unparse = (\<lambda>n. None),
      re_finditer = (\<lambda>regex content. []), recursion_limit = 1000,
      str_hash = (\<lambda>s. int (length s))\<rparr>"

text \<open>The same with a parser that raises \<open>SyntaxError\<close>.\<close>

definition syntax_error_env :: environment where
  "syntax_error_env =
     \<lparr>ast_parse = (\<lambda>content. ParseRaised (SyntaxError 1 ''invalid syntax'')),
      ast_unparse = (\<lambda>n. None), re_finditer = (\<lambda>regex content. []), recursion_limit = 1000,
      str_hash = (\<lambda>s. int (length s))\<rparr>"

text \<open>
  The source of \<open>deep_module\<close>, and an interpreter for it: the parser returns the tree,
  the only regex of the analyzer that matches the source is the import regex of the
  fallback, and 1000 nested calls are allowed.
\<close>

definition deep_source :: string where
  "deep_source =
     ''import os'' @ [NL] @
     ''def g():'' @ [NL] @
     ''    return '' @ concat (replicate 1000 ''1+'') @ ''1'' @ [NL]"

definition deep_env :: environment where
  "deep_env =
     \<lparr>ast_parse = (\<lambda>content. Parsed deep_module), ast_unparse = (\<lambda>n. None),
      re_finditer = (\<lambda>regex content.
         if regex = rx ''(?:from|import)%s+([%w%.]+)'' then [(0, ''os'')] else []),
      recursion_limit = 1000,
      str_hash = (\<lambda>s. int (length s))\<rparr>"

section \<open>Generic analyzer\<close>

text \<open>\<open>s.lower()\<close> on code points below 256.\<close>

definition lower_char :: "char \<Rightarrow> char" where
  "lower_char c = (let n = (of_char c :: nat) in
     if (65 \<le> n \<and> n \<le> 90) \<or> (192 \<le> n \<and> n \<le> 222 \<and> n \<noteq> 215) then char_of (n + 32) else c)"

definition lower :: "string \<Rightarrow> string" where
  "lower s = map lower_char s"

text \<open>\<open>s.lstrip()\<close>\<close>

definition lstrip :: "string \<Rightarrow> string" where
  "lstrip s = dropWhile is_space s"

text \<open>\<open>s.find(sub, start)\<close>\<close>

definition find_from :: "string \<Rightarrow> string \<Rightarrow> nat \<Rightarrow> nat option" where
  "find_from s sub start = map_option (\<lambda>k. k + start) (py_find sub (drop start s))"

text \<open>\<open>s[a:b]\<close> for indices within the string.\<close>

definition slice :: "string \<Rightarrow> nat \<Rightarrow> nat \<Rightarrow> string" where
  "slice s a b = take (b - a) (drop a s)"

text \<open>\<open>re.search(regex, s)\<close> as a truth value.\<close>

definition re_search :: "environment \<Rightarrow> string \<Rightarrow> string \<Rightarrow> bool" where
  "re_search E regex s = (re_finditer E regex s \<noteq> [])"

text \<open>
  A rule of the security and performance tables; \<open>nested_loops\<close> has no regex.
\<close>

record rule =
  r_name :: string
  r_description :: string
  r_severity :: string
  r_regex :: "string option"
  r_languages :: "string list"

definition SECURITY_VULNERABILITIES :: "rule list" where
  "SECURITY_VULNERABILITIES =
     [\<lparr>r_name = ''sql_injection'', r_description = ''Potential SQL Injection vulnerabilities'',
       r_severity = ''critical'',
       r_regex = Some (rx ''.*(?:execute|query|run).*%+.*|.*(?:execute|query|run).*%$%{''),
       r_languages = [''python'', ''javascript'', ''php'', ''ruby'']\<rparr>,
      \<lparr>r_name = ''xss'',
       r_description = ''Potential Cross-Site Scripting (XSS) vulnerabilities'',
       r_severity = ''critical'', r_regex = Some (rx ''innerHTML%s*=|document%.write%s*%(''),
       r_languages = [''javascript'', ''html'']\<rparr>,
      \<lparr>r_name = ''eval_input'',
       r_description = ''Evaluating user input (can lead to code injection)'',
       r_severity = ''critical'',
       r_regex = Some (rx ''eval%s*%(.*(?:input|param|request|query|%$_GET|%$_POST)''),
       r_languages = [''python'', ''javascript'', ''php'']\<rparr>,
      \<lparr>r_name = ''hardcoded_credentials'', r_description = ''Hardcoded credentials or API keys'',
       r_severity = ''critical'',
       r_regex = Some (rx (''password%s*=%s*['' @ [CHR 0x22] @ ''%'' @ [CHR 0x27] @ ''][^''
                  @ [CHR 0x22] @ ''%'' @ [CHR 0x27] @ '']+['' @ [CHR 0x22] @ ''%'' @ [CHR 0x27]
                  @ '']|api[_-]?key%s*=%s*['' @ [CHR 0x22] @ ''%'' @ [CHR 0x27] @ ''][^''
                  @ [CHR 0x22] @ ''%'' @ [CHR 0x27] @ '']+['' @ [CHR 0x22] @ ''%'' @ [CHR 0x27]
                  @ '']'')),
       r_languages = [''all'']\<rparr>]"

definition PERFORMANCE_ISSUES :: "rule list" where
  "PERFORMANCE_ISSUES =
     [\<lparr>r_name = ''inefficient_loop'', r_description = ''Inefficient loop patterns'',
       r_severity = ''medium'',
       r_regex = Some (rx ''for%s+%w+%s+in%s+range%s*%(%s*len%s*%(%s*%w+%s*%)%s*%)''),
       r_languages = [''python'']\<rparr>,
      \<lparr>r_name = ''nested_loops'', r_description = ''Nested loops with high complexity'',
       r_severity = ''high'', r_regex = None, r_languages = [''all'']\<rparr>,
      \<lparr>r_name = ''multiple_dom_access'',
       r_description = ''Multiple DOM accesses that could be cached'',
       r_severity = ''medium'',
       r_regex = Some (rx (''document%.getElement(s)?By|%$%(%s*[%'' @ [CHR 0x27, CHR 0x22] @ '']'')),
       r_languages = [''javascript'']\<rparr>]"

subsection \<open>Long lines\<close>

definition long_line_at :: "nat \<Rightarrow> finding" where
  "long_line_at i =
     \<lparr>f_type = ''long_line'', f_description = ''Line exceeds 100 characters'',
      f_severity = ''low'', f_line = int i + 1, f_context = None\<rparr>"

definition long_lines ::
  "string \<Rightarrow> string list \<Rightarrow> (string \<times> finding list) list \<Rightarrow> (string \<times> finding list) list" where
  "long_lines fp lines style =
     foldl (\<lambda>s (i, line). if length (strip line) > 100 then dd_append s fp (long_line_at i) else s)
       style (enumerate 0 lines)"

subsection \<open>Commented-out code\<close>

definition generic_comment_markers :: "string \<Rightarrow> string list" where
  "generic_comment_markers language =
     (if language = ''Python'' then [''#'']
      else if language \<in> set [''JavaScript'', ''Java'', ''C'', ''C++'', ''C#''] then [''//'', ''/*'']
      else if language = ''Ruby'' then [''#'']
      else if language = ''PHP'' then [''//'', ''/*'', ''#'']
      else if language = ''Swift'' then [''//'', ''/*'']
      else if language = ''Go'' then [''//'']
      else if language = ''Rust'' then [''//'', ''/*'']
      else [''#'', ''//''])"

definition generic_block_langs :: "string list" where
  "generic_block_langs = [''JavaScript'', ''Java'', ''C'', ''C++'', ''C#'', ''PHP'', ''Swift'']"

definition code_indicators :: "string list" where
  "code_indicators =
     [rx ''%bif%b'', rx ''%bfor%b'', rx ''%bwhile%b'', rx ''%bdef%b'', rx ''%bfunction%b'',
      rx ''%breturn%b'', rx ''%bclass%b'', ''{'', ''}'', ''='', rx ''%(.*%)'']"

text \<open>The comment line without its first matching marker, stripped.\<close>

fun strip_marker :: "string list \<Rightarrow> string \<Rightarrow> string" where
  "strip_marker [] code_line = code_line"
| "strip_marker (marker # markers) code_line =
     (if startswith code_line marker then strip (drop (length marker) code_line)
      else strip_marker markers code_line)"

text \<open>The block-comment flag after a line, for a language with block comments.\<close>

definition block_comment_after :: "bool \<Rightarrow> string \<Rightarrow> bool" where
  "block_comment_after in_block_comment line_stripped =
     (let b1 = (if opens_block_comment line_stripped then True else in_block_comment)
      in if contains ''*/'' line_stripped \<and> b1 then False else b1)"

text \<open>
  The state of the loop: \<open>in_block_comment\<close>, \<open>commented_code_lines\<close> and
  \<open>current_block\<close>.
\<close>

definition commented_step ::
  "environment \<Rightarrow> string \<Rightarrow> string list
     \<Rightarrow> bool \<times> (nat \<times> string) list list \<times> (nat \<times> string) list
     \<Rightarrow> nat \<times> string \<Rightarrow> bool \<times> (nat \<times> string) list list \<times> (nat \<times> string) list" where
  "commented_step E language markers state entry =
     (case state of (in_block_comment, commented_code_lines, current_block) \<Rightarrow>
      case entry of (i, line) \<Rightarrow>
        let line_stripped = strip line in
        if line_stripped = [] then state
        else
          let ibc = (if language \<in> set generic_block_langs
                     then block_comment_after in_block_comment line_stripped
                     else in_block_comment)
          in if is_comment_line markers line_stripped \<or> ibc
             then (if list_ex (\<lambda>indicator. re_search E indicator (strip_marker markers line_stripped))
                        code_indicators
                   then (ibc, commented_code_lines, current_block @ [(i + 1, line_stripped)])
                   else (ibc, commented_code_lines, current_block))
             else (if current_block \<noteq> []
                   then (ibc, (if length current_block > 1
                               then commented_code_lines @ [current_block]
                               else commented_code_lines), [])
                   else (ibc, commented_code_lines, current_block)))"

definition commented_finding :: "(nat \<times> string) list \<Rightarrow> finding" where
  "commented_finding block =
     \<lparr>f_type = ''commented_code'',
      f_description = ''Commented-out code block (lines '' @ str_nat (fst (hd block)) @ ''-''
         @ str_nat (fst (last block)) @ '')'',
      f_severity = ''low'', f_line = int (fst (hd block)), f_context = None\<rparr>"

text \<open>
  The commented-code pass: the new code smells and the value of \<open>in_block_comment\<close>
  it leaves.  Every reported block has at least two entries, so \<open>block[0]\<close> and
  \<open>block[-1]\<close> exist.
\<close>

definition commented_code ::
  "environment \<Rightarrow> string \<Rightarrow> string \<Rightarrow> string list \<Rightarrow> (string \<times> finding list) list
     \<Rightarrow> bool \<times> (string \<times> finding list) list" where
  "commented_code E fp language lines sm =
     (case foldl (commented_step E language (generic_comment_markers language)) (False, [], [])
             (enumerate 0 lines) of
        (in_block_comment, commented_code_lines, current_block) \<Rightarrow>
          let blocks = (if current_block \<noteq> [] \<and> length current_block > 1
                        then commented_code_lines @ [current_block]
                        else commented_code_lines)
          in (in_block_comment, foldl (\<lambda>s block. dd_append s fp (commented_finding block)) sm blocks))"

subsection \<open>Security and performance rules\<close>

text \<open>The language filter of a rule.\<close>

definition rule_applies :: "rule \<Rightarrow> string \<Rightarrow> bool" where
  "rule_applies r language =
     (''all'' \<in> set (r_languages r) \<or> lower language \<in> set (map lower (r_languages r)))"

definition rule_finding :: "rule \<Rightarrow> string \<Rightarrow> nat \<Rightarrow> finding" where
  "rule_finding r content start =
     (let line_number = line_of content start
      in \<lparr>f_type = r_name r, f_description = r_description r, f_severity = r_severity r,
          f_line = int line_number,
          f_context = Some (strip (split_nl content ! (line_number - 1)))\<rparr>)"

definition rule_matches ::
  "environment \<Rightarrow> rule \<Rightarrow> string \<Rightarrow> string \<Rightarrow> (string \<times> finding list) list
     \<Rightarrow> (string \<times> finding list) list" where
  "rule_matches E r fp content issues =
     (case r_regex r of
        None \<Rightarrow> issues
      | Some regex \<Rightarrow>
          foldl (\<lambda>s m. dd_append s fp (rule_finding r content (fst m))) issues
            (re_finditer E regex content))"

definition security_scan ::
  "environment \<Rightarrow> string \<Rightarrow> string \<Rightarrow> string \<Rightarrow> (string \<times> finding list) list
     \<Rightarrow> (string \<times> finding list) list" where
  "security_scan E fp content language issues =
     foldl (\<lambda>s vuln. if rule_applies vuln language then rule_matches E vuln fp content s else s)
       issues SECURITY_VULNERABILITIES"

text \<open>
  The loop over the performance rules.  Its state is the loop variable \<open>issue_name\<close>,
  which the statement after the loop reads, and the performance issues.
\<close>

definition performance_step ::
  "environment \<Rightarrow> string \<Rightarrow> string \<Rightarrow> string
     \<Rightarrow> string \<times> (string \<times> finding list) list \<Rightarrow> rule
     \<Rightarrow> string \<times> (string \<times> finding list) list" where
  "performance_step E fp content language state issue =
     (r_name issue,
      if rule_applies issue language then rule_matches E issue fp content (snd state)
      else snd state)"

definition performance_loop ::
  "environment \<Rightarrow> string \<Rightarrow> string \<Rightarrow> string \<Rightarrow> (string \<times> finding list) list
     \<Rightarrow> string \<times> (string \<times> finding list) list" where
  "performance_loop E fp content language issues =
     foldl (performance_step E fp content language) ([], issues) PERFORMANCE_ISSUES"

subsection \<open>Nested loops\<close>

definition loop_pattern :: "string \<Rightarrow> string" where
  "loop_pattern language =
     (if language = ''Python'' then rx ''%b(for|while)%b''
      else if language \<in> set [''JavaScript'', ''Java'', ''C'', ''C++'']
        then rx ''%b(for|while|do)%b''
      else if language = ''C#'' then rx ''%b(for|while|do|foreach)%b''
      else if language = ''Ruby'' then rx ''%b(for|while|until|each)%b''
      else if language = ''PHP'' then rx ''%b(for|while|do|foreach)%b''
      else rx ''%b(for|while)%b'')"

text \<open>The end of the line that starts at \<open>pos\<close>: the next newline or the end of the text.\<close>

definition line_end_from :: "string \<Rightarrow> nat \<Rightarrow> nat" where
  "line_end_from content pos =
     (case find_from content [NL] pos of None \<Rightarrow> length content | Some k \<Rightarrow> k)"

text \<open>
  The \<open>while\<close> loop that looks for the end of an indented block, with its \<open>else\<close>
  branch.
\<close>

function indent_block_end :: "string \<Rightarrow> nat \<Rightarrow> nat \<Rightarrow> nat" where
  "indent_block_end content indentation pos =
     (if pos < length content
      then (if strip (slice content pos (line_end_from content pos)) \<noteq> []
               \<and> length (slice content pos (line_end_from content pos))
                   - length (lstrip (slice content pos (line_end_from content pos)))
                 \<le> indentation
            then pos - 1
            else indent_block_end content indentation (line_end_from content pos + 1))
      else length content)"
  by pat_completeness auto
termination
proof (relation "measure (\<lambda>(content, indentation, pos). length content - pos)")
  show "wf (measure (\<lambda>(content, indentation, pos). length content - pos))"
    by simp
next
  fix content :: string and indentation pos :: nat
  assume less: "pos < length content"
  then have "pos \<le> line_end_from content pos"
    by (auto simp: line_end_from_def find_from_def split: option.splits)
  with less show "((content, indentation, line_end_from content pos + 1),
                    (content, indentation, pos))
                   \<in> measure (\<lambda>(content, indentation, pos). length content - pos)"
    by simp
qed

text \<open>
  The \<open>for j in range(block_start, len(content))\<close> loop that matches the closing
  brace; \<open>None\<close> is its \<open>else\<close> branch.
\<close>

fun brace_scan :: "string \<Rightarrow> nat \<Rightarrow> int \<Rightarrow> nat option" where
  "brace_scan [] j opening_count = None"
| "brace_scan (c # cs) j opening_count =
     (if c = CHR ''{'' then brace_scan cs (j + 1) (opening_count + 1)
      else if c = CHR ''}''
        then (if opening_count - 1 = 0 then Some j else brace_scan cs (j + 1) (opening_count - 1))
      else brace_scan cs (j + 1) opening_count)"

definition nested_loops_finding :: "nat \<Rightarrow> nat \<Rightarrow> finding" where
  "nested_loops_finding line_number inner_line =
     \<lparr>f_type = ''nested_loops'',
      f_description = ''Nested loops detected (outer loop at line '' @ str_nat line_number
         @ '', inner at line '' @ str_nat inner_line @ '')'',
      f_severity = ''high'', f_line = int line_number, f_context = None\<rparr>"

text \<open>
  The local variables \<open>block_start\<close> and \<open>block_end\<close> live across the iterations of
  the loop over the matches; \<open>None\<close> is an unbound variable.  Only the brace branch
  binds \<open>block_start\<close>.
\<close>

record nested_state =
  block_start :: "nat option"
  block_end :: "nat option"
  ns_issues :: "(string \<times> finding list) list"

text \<open>The end of an iteration: the search for an inner loop in the block.\<close>

definition nested_report ::
  "environment \<Rightarrow> string \<Rightarrow> string \<Rightarrow> string \<Rightarrow> nat \<Rightarrow> nested_state
     \<Rightarrow> py_error option \<times> nested_state" where
  "nested_report E fp content loop_regex line_number ns =
     (case (block_start ns, block_end ns) of
        (Some bs, Some be) \<Rightarrow>
          (let block_content = slice content bs be
           in case re_finditer E loop_regex block_content of
                [] \<Rightarrow> (None, ns)
              | inner_loops # others \<Rightarrow>
                  (None, ns\<lparr>ns_issues := dd_append (ns_issues ns) fp
                     (nested_loops_finding line_number
                        (line_number
                         + length (filter (\<lambda>c. c = NL) (take (fst inner_loops) block_content))))\<rparr>))
      | _ \<Rightarrow> (Some (OtherError ''UnboundLocalError''), ns))"

text \<open>One iteration of the loop over the loop matches.\<close>

definition nested_iteration ::
  "environment \<Rightarrow> string \<Rightarrow> string \<Rightarrow> string \<Rightarrow> nested_state \<Rightarrow> nat \<times> string
     \<Rightarrow> py_error option \<times> nested_state" where
  "nested_iteration E fp content loop_regex ns m =
     (let loop_start = fst m;
          line_number = line_of content loop_start
      in case find_from content ''{'' loop_start of
           None \<Rightarrow>
             (case find_from content '':'' loop_start of
                None \<Rightarrow> (None, ns)
              | Some opening_bracket \<Rightarrow>
                  let next_line_start =
                        (case find_from content [NL] opening_bracket of None \<Rightarrow> 0 | Some k \<Rightarrow> k + 1)
                  in if next_line_start \<ge> length content then (None, ns)
                     else
                       let next_line_end = line_end_from content next_line_start;
                           next_line = slice content next_line_start next_line_end;
                           indentation = length next_line - length (lstrip next_line)
                       in nested_report E fp content loop_regex line_number
                            (ns\<lparr>block_end :=
                                Some (indent_block_end content indentation (next_line_end + 1))\<rparr>))
         | Some opening_bracket \<Rightarrow>
             (case brace_scan (drop (opening_bracket + 1) content) (opening_bracket + 1) 1 of
                None \<Rightarrow> (None, ns\<lparr>block_start := Some (opening_bracket + 1)\<rparr>)
              | Some j \<Rightarrow>
                  nested_report E fp content loop_regex line_number
                    (ns\<lparr>block_start := Some (opening_bracket + 1), block_end := Some j\<rparr>)))"

fun nested_scan ::
  "environment \<Rightarrow> string \<Rightarrow> string \<Rightarrow> string \<Rightarrow> (nat \<times> string) list \<Rightarrow> nested_state
     \<Rightarrow> py_error option \<times> nested_state" where
  "nested_scan E fp content loop_regex [] ns = (None, ns)"
| "nested_scan E fp content loop_regex (m # ms) ns =
     (case nested_iteration E fp content loop_regex ns m of
        (Some e, ns') \<Rightarrow> (Some e, ns')
      | (None, ns') \<Rightarrow> nested_scan E fp content loop_regex ms ns')"

subsection \<open>File metrics\<close>

definition comment_count_step ::
  "string \<Rightarrow> string list \<Rightarrow> bool \<times> int \<Rightarrow> string \<Rightarrow> bool \<times> int" where
  "comment_count_step language markers state line =
     (case state of (in_block_comment, comment_lines) \<Rightarrow>
        let line_stripped = strip line
        in (if language \<in> set generic_block_langs
            then block_comment_after in_block_comment line_stripped
            else in_block_comment,
            if is_comment_line markers line_stripped \<or> in_block_comment
            then comment_lines + 1 else comment_lines))"

text \<open>
  The metrics of a file.  The comment count starts with the value of
  \<open>in_block_comment\<close> that the commented-code pass left.
\<close>

definition file_metric_of :: "string \<Rightarrow> string list \<Rightarrow> bool \<Rightarrow> file_metric" where
  "file_metric_of language lines in_block_comment =
     (let loc = int (length lines);
          comment_lines = snd (foldl (comment_count_step language (generic_comment_markers language))
                                 (in_block_comment, 0) lines);
          non_empty_lines = map (\<lambda>line. int (length line)) (filter (\<lambda>line. strip line \<noteq> []) lines)
      in \<lparr>fm_loc = loc, fm_comment_lines = comment_lines,
          fm_comment_density =
            (if loc > 0 then real_of_int comment_lines / real_of_int loc else 0),
          fm_avg_line_length =
            (if non_empty_lines \<noteq> []
             then real_of_int (sum_list non_empty_lines) / real (length non_empty_lines)
             else 0)\<rparr>)"

subsection \<open>\<open>_analyze_generic\<close>\<close>

text \<open>
  The nested-loop block stands after the loop over the performance rules and tests
  the loop variable, which then holds the name of the last rule.  An exception in the
  block leaves the method before the file metrics are stored.
\<close>

definition analyze_generic ::
  "environment \<Rightarrow> string \<Rightarrow> string \<Rightarrow> string \<Rightarrow> analyzer \<Rightarrow> py_error option \<times> analyzer" where
  "analyze_generic E fp content language st =
     (let lines = split_nl content;
          style1 = long_lines fp lines (style_issues st);
          commented = commented_code E fp language lines (code_smells st);
          security1 = security_scan E fp content language (security_issues st);
          performance = performance_loop E fp content language (performance_issues st);
          issue_name = fst performance;
          st1 = st\<lparr>style_issues := style1, code_smells := snd commented,
                   security_issues := security1\<rparr>;
          nested =
            (if issue_name = ''nested_loops''
             then nested_scan E fp content (loop_pattern language)
                    (re_finditer E (loop_pattern language) content)
                    \<lparr>block_start = None, block_end = None, ns_issues = snd performance\<rparr>
             else (None, \<lparr>block_start = None, block_end = None, ns_issues = snd performance\<rparr>))
      in case nested of
           (Some e, ns) \<Rightarrow> (Some e, st1\<lparr>performance_issues := ns_issues ns\<rparr>)
         | (None, ns) \<Rightarrow>
             (None, st1\<lparr>performance_issues := ns_issues ns,
                        file_metrics := dict_set (file_metrics st) fp
                          (file_metric_of language lines (fst commented))\<rparr>))"

text \<open>
  A Python file with a loop inside the block of another loop, and an interpreter whose
  regex engine finds the two loops in it.
\<close>

definition nested_loops_source :: string where
  "nested_loops_source =
     ''for i in a:'' @ [NL] @
     ''    for j in b:'' @ [NL] @
     ''        pass'' @ [NL]"

definition loops_env :: environment where
  "loops_env =
     \<lparr>ast_parse = (\<lambda>content. ParseRaised (OtherError ''unused'')), ast_unparse = (\<lambda>n. None),
      re_finditer = (\<lambda>regex content.
         if regex = rx ''%b(for|while)%b'' \<and> content = nested_loops_source
         then [(0, ''for''), (16, ''for'')] else []),
      recursion_limit = 1000,
      str_hash = (\<lambda>s. int (length s))\<rparr>"

text \<open>The nested-loop Findings of a file.\<close>

definition nested_loops_findings :: "analyzer \<Rightarrow> string \<Rightarrow> finding list" where
  "nested_loops_findings st fp =
     filter (\<lambda>f. f_type f = ''nested_loops'') (dd_get (performance_issues st) fp)"

section \<open>The pipeline: \<open>analyze_project\<close>\<close>

definition JS_ANTI_PATTERNS :: "pattern list" where
  "JS_ANTI_PATTERNS =
     [\<lparr>p_name = ''var_usage'', p_description = ''Using var instead of let/const'',
       p_severity = ''medium'', p_regex = rx ''%bvar%s+''\<rparr>,
      \<lparr>p_name = ''triple_equals'', p_description = ''Using == instead of ==='',
       p_severity = ''medium'', p_regex = ''[^=!]==[^=]''\<rparr>,
      \<lparr>p_name = ''eval_usage'', p_description = ''Using eval() function'',
       p_severity = ''high'', p_regex = rx ''eval%s*%(''\<rparr>,
      \<lparr>p_name = ''with_statement'', p_description = ''Using with statement'',
       p_severity = ''high'', p_regex = rx ''%bwith%s*%(''\<rparr>]"

definition js_import_regex :: string where
  "js_import_regex =
     rx (''import%s+.*from%s+[%'' @ [CHR 0x27, CHR 0x22] @ '']([^%'' @ [CHR 0x27, CHR 0x22]
         @ '']+)[%'' @ [CHR 0x27, CHR 0x22] @ '']'')"

definition js_require_regex :: string where
  "js_require_regex =
     rx (''require%s*%(%s*[%'' @ [CHR 0x27, CHR 0x22] @ '']([^%'' @ [CHR 0x27, CHR 0x22]
         @ '']+)[%'' @ [CHR 0x27, CHR 0x22] @ '']%s*%)'')"

definition group_dependencies ::
  "environment \<Rightarrow> string \<Rightarrow> string \<Rightarrow> string \<Rightarrow> (string \<Rightarrow> string set) \<Rightarrow> (string \<Rightarrow> string set)" where
  "group_dependencies E regex fp content deps =
     foldl (\<lambda>d m. set_add d fp (snd m)) deps (re_finditer E regex content)"

text \<open>
  \<open>_analyze_js_file\<close>.  Its last loop iterates \<open>matches\<close>, the iterator of the last
  anti-pattern, which the loop before has exhausted: the body that would report long
  functions never runs.
\<close>

definition analyze_js_file :: "environment \<Rightarrow> string \<Rightarrow> string \<Rightarrow> analyzer \<Rightarrow> analyzer" where
  "analyze_js_file E fp content st =
     st\<lparr>code_smells := regex_smells E JS_ANTI_PATTERNS fp content (code_smells st),
        dependencies := group_dependencies E js_require_regex fp content
                          (group_dependencies E js_import_regex fp content (dependencies st))\<rparr>"

definition get_language_from_extension :: "string \<Rightarrow> string" where
  "get_language_from_extension extension =
     (case map_of
        [(''.py'', ''Python''), (''.pyw'', ''Python''), (''.js'', ''JavaScript''),
         (''.jsx'', ''JavaScript''), (''.ts'', ''TypeScript''), (''.tsx'', ''TypeScript''),
         (''.java'', ''Java''), (''.c'', ''C''), (''.cpp'', ''C++''), (''.h'', ''C/C++''),
         (''.hpp'', ''C++''), (''.cs'', ''C#''), (''.rb'', ''Ruby''), (''.php'', ''PHP''),
         (''.swift'', ''Swift''), (''.go'', ''Go''), (''.rs'', ''Rust''), (''.html'', ''HTML''),
         (''.htm'', ''HTML''), (''.css'', ''CSS''), (''.scss'', ''SCSS''), (''.sass'', ''SASS''),
         (''.less'', ''LESS''), (''.sql'', ''SQL'')] extension of
        None \<Rightarrow> ''Unknown'' | Some language \<Rightarrow> language)"

text \<open>
  \<open>os.path.splitext(p)[1]\<close> with \<open>/\<close> as the separator: the part of the file name
  from its last dot, unless only dots stand before that dot.
\<close>

definition splitext_ext :: "string \<Rightarrow> string" where
  "splitext_ext p =
     (let name = rev (takeWhile (\<lambda>c. c \<noteq> CHR ''/'') (rev p));
          stem = dropWhile (\<lambda>c. c = CHR ''.'') name
      in if CHR ''.'' \<in> set stem
         then CHR ''.'' # rev (takeWhile (\<lambda>c. c \<noteq> CHR ''.'') (rev stem))
         else [])"

text \<open>
  The body of the \<open>try\<close> for a file that was read and decoded.  An exception of the
  generic analysis is caught by \<open>analyze_project\<close>; the duplicate scan of the file is
  skipped then.
\<close>

definition analyze_file :: "environment \<Rightarrow> analyzer \<Rightarrow> string \<Rightarrow> string \<Rightarrow> string \<Rightarrow> analyzer" where
  "analyze_file E st fp content language =
     (let st1 = (if language = ''Python'' then snd (analyze_python_file E fp content st)
                 else if language \<in> set [''JavaScript'', ''TypeScript'']
                   then analyze_js_file E fp content st
                 else st)
      in case analyze_generic E fp content language st1 of
           (Some e, st2) \<Rightarrow> st2
         | (None, st2) \<Rightarrow>
             st2\<lparr>duplicated_blocks :=
                   check_duplicated_code (str_hash E) (duplicated_blocks st2) fp content language\<rparr>)"

text \<open>
  One iteration of the loop over the files.  \<open>read_file\<close> gives the decoded content of
  a path, or \<open>None\<close> when reading raises.
\<close>

definition project_step ::
  "environment \<Rightarrow> (string \<Rightarrow> string option) \<Rightarrow> analyzer \<Rightarrow> string \<Rightarrow> analyzer" where
  "project_step E read_file st fp =
     (let language = get_language_from_extension (lower (splitext_ext fp))
      in if language \<noteq> ''Unknown''
         then (case read_file fp of None \<Rightarrow> st
               | Some content \<Rightarrow> analyze_file E st fp content language)
         else st)"

text \<open>The loop over the files, then \<open>_analyze_duplicated_code\<close>.\<close>

definition collect_results ::
  "environment \<Rightarrow> (string \<Rightarrow> string option) \<Rightarrow> string list \<Rightarrow> analyzer \<Rightarrow> analyzer" where
  "collect_results E read_file files st =
     (let st1 = foldl (project_step E read_file) st files;
          report = analyze_duplicated_code (duplicated_blocks st1) (code_smells st1)
      in st1\<lparr>duplicated_code := fst report, code_smells := snd report\<rparr>)"

text \<open>
  \<open>analyze_project\<close> on a fresh analyzer (the time stamp of the run is not part of
  the state modelled here).
\<close>

definition analyze_project ::
  "environment \<Rightarrow> (string \<Rightarrow> string option) \<Rightarrow> string list \<Rightarrow> analyzer option" where
  "analyze_project E read_file files =
     calculate_project_metrics (collect_results E read_file files new_analyzer)"

text \<open>
  The results a run hands over: everything but the hash table of the duplicate scan,
  whose keys are hash values.
\<close>

definition reported :: "analyzer \<Rightarrow> analyzer" where
  "reported st = st\<lparr>duplicated_blocks := []\<rparr>"

text \<open>The window texts that the duplicate scan of a file hashes.\<close>

definition hashed_blocks :: "string \<Rightarrow> string \<Rightarrow> string list" where
  "hashed_blocks language content =
     (let clean = clean_lines language content
      in filter (\<lambda>block. \<not> (length block < 100 \<or> \<not> has_ident_run block))
           (map (\<lambda>i. join_nl (take min_block_size (drop i clean)))
              [0 ..< length clean + 1 - min_block_size]))"

definition project_blocks :: "(string \<Rightarrow> string option) \<Rightarrow> string list \<Rightarrow> string set" where
  "project_blocks read_file files =
     (\<Union>fp \<in> set files.
        case read_file fp of None \<Rightarrow> {}
        | Some content \<Rightarrow>
            set (hashed_blocks (get_language_from_extension (lower (splitext_ext fp))) content))"

text \<open>
  Two hash tables that differ in their keys only, the keys being the hashes of one
  text under two hash functions.
\<close>

definition same_groups ::
  "(string \<Rightarrow> int) \<Rightarrow> (string \<Rightarrow> int) \<Rightarrow> string set
     \<Rightarrow> (int \<times> occurrence list) list \<Rightarrow> (int \<times> occurrence list) list \<Rightarrow> bool" where
  "same_groups h1 h2 W bs1 bs2 =
     list_all2 (\<lambda>e1 e2. snd e1 = snd e2 \<and> (\<exists>c \<in> W. fst e1 = h1 c \<and> fst e2 = h2 c)) bs1 bs2"

text \<open>
  Two Go files of five lines each; the lines differ, the two texts have the same
  length and different first characters.
\<close>

definition other_example_block :: string where
  "other_example_block =
     ''omega_value = compute_omega(input_data)'' @ [NL] @
     ''sigma_value = compute_sigma(input_data)'' @ [NL] @
     ''theta_value = compute_theta(input_data)'' @ [NL] @
     ''kappa_value = compute_kappa(input_data)'' @ [NL] @
     ''lambda_value = compute_lambda(input_data)''"

definition two_files :: "string \<Rightarrow> string option" where
  "two_files fp =
     (if fp = ''a.go'' then Some dup_example_block
      else if fp = ''b.go'' then Some other_example_block
      else None)"

text \<open>
  Interpreters for these files that differ in the string hash only: the code of the
  first character, that code plus 1000, and the length of the text.  No regex of the
  analyzer matches the files.
\<close>

definition hash_env :: "(string \<Rightarrow> int) \<Rightarrow> environment" where
  "hash_env h =
     \<lparr>ast_parse = (\<lambda>content. ParseRaised (OtherError ''unused'')), ast_unparse = (\<lambda>n. None),
      re_finditer = (\<lambda>regex content. []), recursion_limit = 1000, str_hash = h\<rparr>"

definition first_char_hash :: "string \<Rightarrow> int" where
  "first_char_hash s = (case s of [] \<Rightarrow> 0 | c # cs \<Rightarrow> int (of_char c))"

definition shifted_hash :: "string \<Rightarrow> int" where
  "shifted_hash s = first_char_hash s + 1000"

definition length_hash :: "string \<Rightarrow> int" where
  "length_hash s = int (length s)"

section \<open>Duplicate-block scanner: results\<close>

lemma dd_values_append:
  "set (dd_values (dd_append d k v)) = insert v (set (dd_values d))"
  by (induction d k v rule: dd_append.induct) (auto simp: dd_values_def)

lemma window_step_values:
  "i + 5 \<le> length clean \<Longrightarrow> occ \<in> set (dd_values (window_step h fp clean blocks i)) \<Longrightarrow>
   occ \<in> set (dd_values blocks) \<or> window_of fp clean occ"
  by (auto simp: window_step_def Let_def min_block_size_def dd_values_append window_of_def split: if_splits)

lemma foldl_window_values:
  "\<forall>i \<in> set is. i + 5 \<le> length clean \<Longrightarrow>
   occ \<in> set (dd_values (foldl (window_step h fp clean) blocks is)) \<Longrightarrow>
   occ \<in> set (dd_values blocks) \<or> window_of fp clean occ"
proof (induction "is" arbitrary: blocks)
  case Nil then show ?case by simp
next
  case (Cons i "is")
  from Cons.prems have "occ \<in> set (dd_values (window_step h fp clean blocks i)) \<or> window_of fp clean occ"
    using Cons.IH[of "window_step h fp clean blocks i"] by simp
  with Cons.prems(1) window_step_values[of i clean occ h fp blocks] show ?case by auto
qed

text \<open>
  Claim C10.  Every location recorded by the duplicate-block scanner spans the fixed
  window of five lines (\<open>end_line - start_line + 1 = 5\<close>), and its start line is the
  1-based index of the window's first line in the sequence of comment-stripped,
  blank-stripped lines of the file, not a line number of the file's content.
\<close>

theorem scanned_location_is_window:
  assumes "occ \<in> set (dd_values (check_duplicated_code h blocks fp content language))"
    and "occ \<notin> set (dd_values blocks)"
  shows "\<exists>i. i + 5 \<le> length (clean_lines language content)
          \<and> occ_file occ = fp
          \<and> occ_start_line occ = int i + 1
          \<and> occ_end_line occ - occ_start_line occ + 1 = 5
          \<and> occ_content occ = join_nl (take 5 (drop i (clean_lines language content)))"
proof -
  have "\<forall>i \<in> set [0 ..< length (clean_lines language content) + 1 - 5]. i + 5 \<le> length (clean_lines language content)"
    by auto
  then have "window_of fp (clean_lines language content) occ"
    using assms foldl_window_values[of "[0 ..< length (clean_lines language content) + 1 - 5]" "clean_lines language content" occ h fp blocks]
    by (simp add: check_duplicated_code_def Let_def min_block_size_def)
  then show ?thesis by (auto simp: window_of_def)
qed

text \<open>
  The witness: a file with a header comment and a blank line.  The scanner records the
  window starting at clean line 1, although it starts on line 3 of the file.
\<close>

theorem scanned_location_is_window_witness:
  "\<lparr>occ_file = ''a.py'', occ_start_line = 1, occ_end_line = 5, occ_content = dup_example_block\<rparr>
     \<in> set (dd_values (check_duplicated_code (\<lambda>s. int (length s)) [] ''a.py''
                 dup_example_content ''Python''))
   \<and> hd (split_nl dup_example_content) \<noteq> hd (split_nl dup_example_block)
   \<and> (\<exists>i. i + 5 \<le> length (clean_lines ''Python'' dup_example_content)
          \<and> (1::int) = int i + 1
          \<and> dup_example_block = join_nl (take 5 (drop i (clean_lines ''Python'' dup_example_content))))"
proof -
  let ?occ = "\<lparr>occ_file = ''a.py'', occ_start_line = 1, occ_end_line = 5,
                occ_content = dup_example_block\<rparr>"
  have m: "?occ \<in> set (dd_values (check_duplicated_code (\<lambda>s. int (length s)) [] ''a.py''
                 dup_example_content ''Python''))"
    by code_simp
  have n: "?occ \<notin> set (dd_values [])"
    by (simp add: dd_values_def)
  have d: "hd (split_nl dup_example_content) \<noteq> hd (split_nl dup_example_block)"
    by code_simp
  from scanned_location_is_window[OF m n] m d show ?thesis by simp
qed

section \<open>Duplicate-block report: results\<close>

lemma collect_locations_inv:
  assumes "collect_locations occs locs rep = (locs', rep')"
    and "distinct (lkeys locs)" "set (lkeys locs) \<subseteq> rep" "set (lkeys locs) \<inter> R0 = {}" "R0 \<subseteq> rep"
  shows "distinct (lkeys locs') \<and> set (lkeys locs') \<subseteq> rep' \<and> set (lkeys locs') \<inter> R0 = {}
         \<and> rep' = rep \<union> okeys occs \<and> set (lkeys locs') \<subseteq> set (lkeys locs) \<union> okeys occs"
  using assms
proof (induction occs arbitrary: locs rep)
  case Nil then show ?case by auto
next
  case (Cons occ occs)
  show ?case
  proof (cases "(occ_file occ, occ_start_line occ) \<in> rep")
    case True
    with Cons.prems have "collect_locations occs locs rep = (locs', rep')" by simp
    from Cons.IH[OF this Cons.prems(2-5)] True show ?thesis by auto
  next
    case False
    let ?l = "locs @ [\<lparr>file_path = occ_file occ, start_line = occ_start_line occ, end_line = occ_end_line occ\<rparr>]"
    let ?r = "insert (occ_file occ, occ_start_line occ) rep"
    from False Cons.prems have c: "collect_locations occs ?l ?r = (locs', rep')" by simp
    have "distinct (lkeys ?l)" using False Cons.prems by auto
    moreover have "set (lkeys ?l) \<subseteq> ?r" using Cons.prems by auto
    moreover have "set (lkeys ?l) \<inter> R0 = {}" using False Cons.prems by auto
    moreover have "R0 \<subseteq> ?r" using Cons.prems by auto
    ultimately show ?thesis using Cons.IH[OF c] by auto
  qed
qed

lemma collect_locations_fresh:
  assumes "collect_locations occs [] rep = (locs, rep')"
  shows "distinct (lkeys locs)" "set (lkeys locs) \<subseteq> rep'" "set (lkeys locs) \<inter> rep = {}"
    "rep' = rep \<union> okeys occs" "set (lkeys locs) \<subseteq> okeys occs"
  using collect_locations_inv[OF assms, of rep] by auto

lemma dup_group_step_cases:
  obtains (skip) "dup_group_step st e = st" "\<not> group_processed e"
  | (claim) locs rep where "group_processed e"
      "collect_locations (snd e) [] (reported_locations st) = (locs, rep)"
      "\<not> 1 < length locs" "final_duplicates (dup_group_step st e) = final_duplicates st"
      "reported_locations (dup_group_step st e) = rep"
  | (report) locs rep rb where "group_processed e"
      "collect_locations (snd e) [] (reported_locations st) = (locs, rep)"
      "1 < length locs" "rb_files rb = locs"
      "final_duplicates (dup_group_step st e) = final_duplicates st @ [rb]"
      "reported_locations (dup_group_step st e) = rep"
proof (cases "group_processed e")
  case False
  then have "dup_group_step st e = st"
    by (auto simp: dup_group_step_def group_processed_def split: list.splits)
  with False show ?thesis using skip by blast
next
  case True
  then obtain r others where se: "snd e = r # others" and ne: "others \<noteq> []"
    and lc: "\<not> occ_end_line r - occ_start_line r + 1 < 5"
    by (auto simp: group_processed_def split: list.splits)
  obtain locs rep where c: "collect_locations (snd e) [] (reported_locations st) = (locs, rep)"
    by (cases "collect_locations (snd e) [] (reported_locations st)") auto
  then have c': "collect_locations (r # others) [] (reported_locations st) = (locs, rep)"
    by (simp only: se)
  show ?thesis
  proof (cases "1 < length locs")
    case False
    have "dup_group_step st e = st\<lparr>reported_locations := rep\<rparr>"
      unfolding dup_group_step_def se using ne lc False
      by (simp add: Let_def c' del: collect_locations.simps)
    then have "final_duplicates (dup_group_step st e) = final_duplicates st"
      "reported_locations (dup_group_step st e) = rep" by simp_all
    with True c False show ?thesis using claim by blast
  next
    case l: True
    let ?rb = "\<lparr>rb_lines = occ_end_line r - occ_start_line r + 1,
                rb_tokens = int (count_word_runs False (occ_content r)),
                rb_files = locs, rb_code_snippet = snippet (occ_content r)\<rparr>"
    have "dup_group_step st e = \<lparr>final_duplicates = final_duplicates st @ [?rb],
          reported_locations = rep,
          smells = smell_loop (occ_end_line r - occ_start_line r + 1) (length locs) locs {} (smells st)\<rparr>"
      unfolding dup_group_step_def se using ne lc l
      by (simp add: Let_def c' del: collect_locations.simps)
    then have "final_duplicates (dup_group_step st e) = final_duplicates st @ [?rb]"
      "reported_locations (dup_group_step st e) = rep" by simp_all
    moreover have "rb_files ?rb = locs" by simp
    ultimately show ?thesis using report[OF True c l] by blast
  qed
qed

lemma dup_group_step_inv:
  assumes "dup_inv st"
  shows "dup_inv (dup_group_step st e)"
proof (cases st e rule: dup_group_step_cases)
  case skip
  with assms show ?thesis by simp
next
  case (claim locs rep)
  from collect_locations_fresh[OF claim(2)]
  have "rep = reported_locations st \<union> okeys (snd e)" by simp
  with assms show ?thesis unfolding dup_inv_def claim(4) claim(5) by auto
next
  case (report locs rep rb)
  note cl = collect_locations_fresh[OF report(2)]
  have d: "distinct (lkeys locs)" and s: "set (lkeys locs) \<subseteq> rep"
    and i: "set (lkeys locs) \<inter> reported_locations st = {}"
    and r: "rep = reported_locations st \<union> okeys (snd e)"
    using cl(1) cl(2) cl(3) cl(4) by blast+
  have k: "location_keys rb = lkeys locs" by (simp add: location_keys_def report(4))
  have a1: "\<forall>rb \<in> set (final_duplicates st @ [rb]). 2 \<le> length (rb_files rb)"
    using assms report(3) report(4) by (auto simp: dup_inv_def)
  have b0: "set (concat (map location_keys (final_duplicates st))) \<inter> set (lkeys locs) = {}"
    using assms i unfolding dup_inv_def by blast
  have a2: "distinct (concat (map location_keys (final_duplicates st @ [rb])))"
    using assms d b0 by (simp add: dup_inv_def k)
  have a3: "set (concat (map location_keys (final_duplicates st @ [rb]))) \<subseteq> rep"
  proof -
    have "set (concat (map location_keys (final_duplicates st))) \<subseteq> rep"
      using assms r unfolding dup_inv_def by blast
    with s show ?thesis by (simp add: k)
  qed
  show ?thesis unfolding dup_inv_def report(5) report(6) using a1 a2 a3 by blast
qed

lemma foldl_dup_inv: "dup_inv st \<Longrightarrow> dup_inv (foldl dup_group_step st es)"
  by (induction es arbitrary: st) (simp_all add: dup_group_step_inv)

lemma dup_loop_inv: "dup_inv (dup_loop sm blocks)"
  unfolding dup_loop_def by (rule foldl_dup_inv) (simp add: dup_inv_def)

lemma reported_step:
  "reported_locations st \<subseteq> reported_locations (dup_group_step st e)
   \<and> (group_processed e \<longrightarrow> occurrence_keys e \<subseteq> reported_locations (dup_group_step st e))"
proof (cases st e rule: dup_group_step_cases)
  case skip then show ?thesis by simp
next
  case (claim locs rep)
  from collect_locations_fresh[OF claim(2)]
  have "rep = reported_locations st \<union> okeys (snd e)" by simp
  then show ?thesis unfolding claim(5) occurrence_keys_def by blast
next
  case (report locs rep rb)
  from collect_locations_fresh[OF report(2)]
  have "rep = reported_locations st \<union> okeys (snd e)" by simp
  then show ?thesis unfolding report(6) occurrence_keys_def by blast
qed

lemma reported_mono_foldl: "reported_locations st \<subseteq> reported_locations (foldl dup_group_step st es)"
proof (induction es arbitrary: st)
  case Nil show ?case by simp
next
  case (Cons e es)
  show ?case using reported_step[of st e] Cons[of "dup_group_step st e"] by auto
qed

lemma reported_claims_foldl:
  "e \<in> set es \<Longrightarrow> group_processed e \<Longrightarrow> occurrence_keys e \<subseteq> reported_locations (foldl dup_group_step st es)"
proof (induction es arbitrary: st)
  case Nil then show ?case by simp
next
  case (Cons a es)
  show ?case
  proof (cases "e = a")
    case True
    with Cons.prems reported_step[of st a] reported_mono_foldl[of "dup_group_step st a" es]
    show ?thesis by auto
  next
    case False
    with Cons show ?thesis by auto
  qed
qed

lemma first_group_wins_step:
  "\<exists>rbs. final_duplicates (dup_group_step st e) = final_duplicates st @ rbs
     \<and> (\<forall>rb \<in> set rbs. set (location_keys rb) \<subseteq> occurrence_keys e - reported_locations st)"
proof (cases st e rule: dup_group_step_cases)
  case skip then show ?thesis by simp
next
  case (claim locs rep) then show ?thesis by simp
next
  case (report locs rep rb)
  note cl = collect_locations_fresh[OF report(2)]
  have "set (lkeys locs) \<inter> reported_locations st = {}" "set (lkeys locs) \<subseteq> okeys (snd e)"
    using cl(3) cl(5) by blast+
  then have "set (location_keys rb) \<subseteq> occurrence_keys e - reported_locations st"
    unfolding location_keys_def occurrence_keys_def report(4) by blast
  then show ?thesis unfolding report(5) by simp
qed

lemma sorted_mset: "mset (sort_reverse k xs) = mset xs"
  by (simp add: sort_reverse_def)

lemma mset_concat_map: "mset (concat (map f xs)) = sum_mset (image_mset (\<lambda>x. mset (f x)) (mset xs))"
  by (induction xs) simp_all

lemma distinct_concat_perm:
  assumes "mset xs = mset ys" "distinct (concat (map f xs))"
  shows "distinct (concat (map f ys))"
proof -
  have "mset (concat (map f xs)) = mset (concat (map f ys))"
    by (simp only: mset_concat_map assms(1))
  from mset_eq_imp_distinct_iff[OF this] assms(2) show ?thesis by simp
qed


text \<open>
  Claim C7.  Every reported duplicate group has at least two locations, every
  location (file, start line) appears in at most one reported group (and once there),
  and the first processed group that holds a location claims it: the report built for
  a hash group holds only locations of that group, and none that an earlier processed
  group holds.
\<close>

theorem reported_groups_invariant:
  "(\<forall>rb \<in> set (fst (analyze_duplicated_code blocks sm)). 2 \<le> length (rb_files rb))
   \<and> distinct (concat (map location_keys (fst (analyze_duplicated_code blocks sm))))
   \<and> (\<forall>pre e post. blocks = pre @ e # post \<longrightarrow>
        (\<exists>rbs. final_duplicates (dup_loop sm (pre @ [e])) = final_duplicates (dup_loop sm pre) @ rbs
           \<and> (\<forall>rb \<in> set rbs. set (location_keys rb) \<subseteq> occurrence_keys e
                 \<and> (\<forall>g \<in> set pre. group_processed g \<longrightarrow>
                        set (location_keys rb) \<inter> occurrence_keys g = {}))))"
proof (intro conjI allI impI)
  have inv: "dup_inv (dup_loop sm blocks)" by (rule dup_loop_inv)
  have f: "fst (analyze_duplicated_code blocks sm)
            = sort_reverse (\<lambda>x. (rb_lines x, rb_tokens x)) (final_duplicates (dup_loop sm blocks))"
    by (simp add: analyze_duplicated_code_def Let_def)
  have "set (fst (analyze_duplicated_code blocks sm)) = set (final_duplicates (dup_loop sm blocks))"
    unfolding f by (simp add: sort_reverse_def)
  with inv show "\<forall>rb \<in> set (fst (analyze_duplicated_code blocks sm)). 2 \<le> length (rb_files rb)"
    by (simp add: dup_inv_def)
  from inv have "distinct (concat (map location_keys (final_duplicates (dup_loop sm blocks))))"
    by (simp add: dup_inv_def)
  then show "distinct (concat (map location_keys (fst (analyze_duplicated_code blocks sm))))"
    unfolding f using distinct_concat_perm[OF sorted_mset[symmetric]] by blast
next
  fix pre e post
  assume "blocks = pre @ e # post"
  let ?st = "dup_loop sm pre"
  have l: "dup_loop sm (pre @ [e]) = dup_group_step ?st e"
    by (simp add: dup_loop_def)
  from first_group_wins_step[of ?st e] obtain rbs where
    a: "final_duplicates (dup_group_step ?st e) = final_duplicates ?st @ rbs"
    and b: "\<forall>rb \<in> set rbs. set (location_keys rb) \<subseteq> occurrence_keys e - reported_locations ?st"
    by blast
  have c: "\<forall>g \<in> set pre. group_processed g \<longrightarrow> occurrence_keys g \<subseteq> reported_locations ?st"
    unfolding dup_loop_def using reported_claims_foldl by blast
  have "\<forall>rb \<in> set rbs. set (location_keys rb) \<subseteq> occurrence_keys e
                 \<and> (\<forall>g \<in> set pre. group_processed g \<longrightarrow>
                        set (location_keys rb) \<inter> occurrence_keys g = {})"
    using b c by blast
  with a l show "\<exists>rbs. final_duplicates (dup_loop sm (pre @ [e])) = final_duplicates (dup_loop sm pre) @ rbs
           \<and> (\<forall>rb \<in> set rbs. set (location_keys rb) \<subseteq> occurrence_keys e
                 \<and> (\<forall>g \<in> set pre. group_processed g \<longrightarrow>
                        set (location_keys rb) \<inter> occurrence_keys g = {}))"
    by auto
qed

theorem reported_groups_invariant_witness:
  "map location_keys (fst (analyze_duplicated_code dup_example_blocks []))
     = [[(''a.py'', 1), (''b.py'', 7)], [(''c.py'', 3), (''d.py'', 2)]]
   \<and> distinct (concat (map location_keys (fst (analyze_duplicated_code dup_example_blocks []))))
   \<and> 2 \<le> length (rb_files (hd (fst (analyze_duplicated_code dup_example_blocks []))))"
proof -
  have e: "map location_keys (fst (analyze_duplicated_code dup_example_blocks []))
     = [[(''a.py'', 1), (''b.py'', 7)], [(''c.py'', 3), (''d.py'', 2)]]"
    by code_simp
  then have "fst (analyze_duplicated_code dup_example_blocks []) \<noteq> []"
    by auto
  then have "hd (fst (analyze_duplicated_code dup_example_blocks []))
               \<in> set (fst (analyze_duplicated_code dup_example_blocks []))"
    by simp
  with reported_groups_invariant[of dup_example_blocks "[]"] e show ?thesis
    by blast
qed

section \<open>Aggregate metrics: results\<close>

lemma foldl_add_sum: "foldl (\<lambda>t x. t + g x) (acc::real) xs = acc + sum_list (map g xs)"
  by (induction xs arbitrary: acc) simp_all

lemma debt_plain_sum:
  "debt_plain acc d = acc + (\<Sum>f\<leftarrow>dd_values d. real_of_int (weights_get (f_severity f) 2))"
  unfolding debt_plain_def by (rule foldl_add_sum)

lemma debt_security_sum:
  "debt_security acc d = acc + (\<Sum>f\<leftarrow>dd_values d. real_of_int (weights_get (f_severity f) 4) * 1.5)"
  unfolding debt_security_def by (rule foldl_add_sum)

lemma function_average_total:
  "\<exists>a. function_average field fs = Some a \<and> (fs = [] \<longrightarrow> a = 0)"
  by (simp add: function_average_def py_truediv_def)

lemma guarded_div_total:
  "\<exists>a. (if (0::int) < n then py_truediv x (real_of_int n) else Some 0) = Some a \<and> (n \<le> 0 \<longrightarrow> a = 0)"
  by (simp add: py_truediv_def)

lemma calculate_produces:
  assumes "file_metrics st \<noteq> []"
  shows "\<exists>pm. calculate_project_metrics st = Some (st\<lparr>complexity_metrics := Some pm\<rparr>)
    \<and> pm_total_lines_of_code pm = total_loc_of st
    \<and> pm_maintainability_index pm =
        min 100 (max 0 (171 - 5.2 * (pm_avg_function_complexity pm - 1)
          - 0.23 * pm_avg_line_length pm
          - 16.2 * (real_of_int (pm_total_lines_of_code pm) / 1000)
          + 50 * pm_comment_density pm))
    \<and> pm_technical_debt_hours pm =
        debt_plain (debt_security (debt_plain 0 (code_smells st)) (security_issues st))
          (performance_issues st) + real (length (duplicated_code st)) * 3
    \<and> pm_technical_debt_days pm = py_round1 (pm_technical_debt_hours pm / 8)
    \<and> (all_functions_of st = [] \<longrightarrow> pm_avg_function_complexity pm = 0
          \<and> pm_avg_function_size pm = 0 \<and> pm_avg_function_params pm = 0)
    \<and> (total_loc_of st \<le> 0 \<longrightarrow> pm_comment_density pm = 0 \<and> pm_avg_line_length pm = 0)"
proof -
  let ?tl = "sum_list (map (\<lambda>m. fm_loc (snd m)) (file_metrics st))"
  let ?fs = "concat (map (\<lambda>file_funcs. map snd (snd file_funcs)) (function_metrics st))"
  obtain cd where cd: "(if 0 < ?tl then py_truediv (real_of_int (sum_list (map (\<lambda>m. fm_comment_lines (snd m)) (file_metrics st)))) (real_of_int ?tl) else Some 0) = Some cd"
     "?tl \<le> 0 \<longrightarrow> cd = 0" using guarded_div_total by blast
  obtain al where al: "(if 0 < ?tl then py_truediv (sum_list (map (\<lambda>m. fm_avg_line_length (snd m) * real_of_int (fm_loc (snd m))) (file_metrics st))) (real_of_int ?tl) else Some 0) = Some al"
     "?tl \<le> 0 \<longrightarrow> al = 0" using guarded_div_total by blast
  obtain fc where fc: "function_average fn_complexity ?fs = Some fc" "?fs = [] \<longrightarrow> fc = 0"
    using function_average_total by blast
  obtain fz where fz: "function_average fn_lines ?fs = Some fz" "?fs = [] \<longrightarrow> fz = 0"
    using function_average_total by blast
  obtain fp where fp: "function_average fn_params ?fs = Some fp" "?fs = [] \<longrightarrow> fp = 0"
    using function_average_total by blast
  let ?debt = "debt_plain (debt_security (debt_plain 0 (code_smells st)) (security_issues st))
          (performance_issues st) + real (length (duplicated_code st)) * 3"
  let ?index = "min 100 (max 0 (171 - 5.2 * (fc - 1) - 0.23 * al
          - 16.2 * (real_of_int ?tl / 1000) + 50 * cd))"
  let ?pm = "\<lparr>pm_total_lines_of_code = ?tl,
           pm_total_comment_lines = sum_list (map (\<lambda>m. fm_comment_lines (snd m)) (file_metrics st)),
           pm_comment_density = cd,
           pm_avg_line_length = al,
           pm_code_smell_count = length (dd_values (code_smells st)),
           pm_security_issue_count = length (dd_values (security_issues st)),
           pm_performance_issue_count = length (dd_values (performance_issues st)),
           pm_style_issue_count = length (dd_values (style_issues st)),
           pm_avg_function_complexity = fc,
           pm_avg_function_size = fz,
           pm_avg_function_params = fp,
           pm_duplicated_code_blocks = length (duplicated_code st),
           pm_maintainability_index = ?index,
           pm_maintainability_rating = rating_of ?index,
           pm_technical_debt_hours = ?debt,
           pm_technical_debt_days = py_round1 (?debt / 8)\<rparr>"
  have "calculate_project_metrics st = Some (st\<lparr>complexity_metrics := Some ?pm\<rparr>)"
    unfolding calculate_project_metrics_def using assms
    by (simp add: Let_def cd(1) al(1) fc(1) fz(1) fp(1))
  moreover have "pm_total_lines_of_code ?pm = total_loc_of st"
    by (simp add: total_loc_of_def)
  moreover have "all_functions_of st = [] \<longrightarrow> pm_avg_function_complexity ?pm = 0
          \<and> pm_avg_function_size ?pm = 0 \<and> pm_avg_function_params ?pm = 0"
    using fc(2) fz(2) fp(2) by (simp add: all_functions_of_def)
  moreover have "total_loc_of st \<le> 0 \<longrightarrow> pm_comment_density ?pm = 0 \<and> pm_avg_line_length ?pm = 0"
    using cd(2) al(2) by (simp add: total_loc_of_def)
  moreover have "pm_maintainability_index ?pm =
        min 100 (max 0 (171 - 5.2 * (pm_avg_function_complexity ?pm - 1)
          - 0.23 * pm_avg_line_length ?pm
          - 16.2 * (real_of_int (pm_total_lines_of_code ?pm) / 1000)
          + 50 * pm_comment_density ?pm))"
    by simp
  moreover have "pm_technical_debt_hours ?pm = ?debt"
    by simp
  moreover have "pm_technical_debt_days ?pm = py_round1 (pm_technical_debt_hours ?pm / 8)"
    by simp
  ultimately show ?thesis by blast
qed

text \<open>
  Claim C1, as amended.  When at least one file was analysed, the technical-debt hours
  are the sum of the severity weights (critical 8, high 4, medium 2, low 1) over the
  code-smell, security and performance Findings, each security weight multiplied by
  1.5, plus 3 hours per reported duplicate group; style Findings add nothing.  The days
  are the hours divided by 8, rounded to one decimal.
\<close>

theorem technical_debt_hours_sum:
  assumes "file_metrics st \<noteq> []"
  shows "\<exists>st' pm. calculate_project_metrics st = Some st' \<and> complexity_metrics st' = Some pm
    \<and> pm_technical_debt_hours pm =
         (\<Sum>f\<leftarrow>dd_values (code_smells st). real_of_int (weights_get (f_severity f) 2))
       + (\<Sum>f\<leftarrow>dd_values (security_issues st). real_of_int (weights_get (f_severity f) 4) * 1.5)
       + (\<Sum>f\<leftarrow>dd_values (performance_issues st). real_of_int (weights_get (f_severity f) 2))
       + 3 * real (length (duplicated_code st))
    \<and> pm_technical_debt_days pm = py_round1 (pm_technical_debt_hours pm / 8)"
proof -
  from calculate_produces[OF assms] obtain pm where
    c: "calculate_project_metrics st = Some (st\<lparr>complexity_metrics := Some pm\<rparr>)"
    and h: "pm_technical_debt_hours pm =
        debt_plain (debt_security (debt_plain 0 (code_smells st)) (security_issues st))
          (performance_issues st) + real (length (duplicated_code st)) * 3"
    and d: "pm_technical_debt_days pm = py_round1 (pm_technical_debt_hours pm / 8)"
    by blast
  have "complexity_metrics (st\<lparr>complexity_metrics := Some pm\<rparr>) = Some pm" by simp
  moreover from h have "pm_technical_debt_hours pm =
         (\<Sum>f\<leftarrow>dd_values (code_smells st). real_of_int (weights_get (f_severity f) 2))
       + (\<Sum>f\<leftarrow>dd_values (security_issues st). real_of_int (weights_get (f_severity f) 4) * 1.5)
       + (\<Sum>f\<leftarrow>dd_values (performance_issues st). real_of_int (weights_get (f_severity f) 2))
       + 3 * real (length (duplicated_code st))"
    by (simp add: debt_plain_sum debt_security_sum)
  ultimately show ?thesis using c d by blast
qed

text \<open>
  One critical security Finding and nothing else: 12 hours, 1.5 days.
\<close>

theorem technical_debt_hours_sum_witness:
  "file_metrics one_security_state \<noteq> []
   \<and> dd_values (security_issues one_security_state) = [critical_security_finding]
   \<and> (\<exists>st' pm. calculate_project_metrics one_security_state = Some st'
         \<and> complexity_metrics st' = Some pm
         \<and> pm_technical_debt_hours pm = 12 \<and> pm_technical_debt_days pm = 1.5)"
proof -
  have n: "file_metrics one_security_state \<noteq> []"
    by (simp add: one_security_state_def)
  have s: "dd_values (security_issues one_security_state) = [critical_security_finding]"
    by (simp add: one_security_state_def dd_values_def)
  have e: "dd_values (code_smells one_security_state) = []"
     "dd_values (performance_issues one_security_state) = []"
     "duplicated_code one_security_state = []"
    by (simp_all add: one_security_state_def new_analyzer_def dd_values_def)
  have w: "weights_get (f_severity critical_security_finding) 4 = 8"
    by (simp add: critical_security_finding_def weights_get_def issue_weights_def)
  have r: "py_round1 (12 / 8) = 1.5"
    by (simp add: py_round1_def Let_def)
  from technical_debt_hours_sum[OF n] obtain st' pm where
    "calculate_project_metrics one_security_state = Some st'" "complexity_metrics st' = Some pm"
    "pm_technical_debt_hours pm = 12" "pm_technical_debt_days pm = py_round1 (pm_technical_debt_hours pm / 8)"
    unfolding s e by (auto simp: w)
  then show ?thesis using n s r by auto
qed

text \<open>
  Claim C1 as stated sums over all Findings.  With one low-severity style Finding
  (a long line) and nothing else, that sum is 1 hour; the analyzer computes 0.
\<close>

theorem technical_debt_style_counterexample:
  "dd_values (style_issues one_style_state) = [long_line_finding]
   \<and> spec_technical_debt_hours one_style_state = 1
   \<and> debt_hours_of one_style_state = Some 0"
proof -
  have n: "file_metrics one_style_state \<noteq> []"
    by (simp add: one_style_state_def)
  have e: "dd_values (code_smells one_style_state) = []"
     "dd_values (performance_issues one_style_state) = []"
     "dd_values (security_issues one_style_state) = []"
     "duplicated_code one_style_state = []"
     "dd_values (style_issues one_style_state) = [long_line_finding]"
    by (simp_all add: one_style_state_def new_analyzer_def dd_values_def)
  have "spec_technical_debt_hours one_style_state = 1"
    unfolding spec_technical_debt_hours_def e
    by (simp add: spec_weight_def long_line_finding_def issue_weights_def)
  moreover have "debt_hours_of one_style_state = Some 0"
  proof -
    from calculate_produces[OF n] obtain pm where
      c: "calculate_project_metrics one_style_state = Some (one_style_state\<lparr>complexity_metrics := Some pm\<rparr>)"
      and h: "pm_technical_debt_hours pm =
        debt_plain (debt_security (debt_plain 0 (code_smells one_style_state)) (security_issues one_style_state))
          (performance_issues one_style_state) + real (length (duplicated_code one_style_state)) * 3"
      by blast
    from h have "pm_technical_debt_hours pm = 0"
      by (simp add: debt_plain_sum debt_security_sum e)
    with c show ?thesis by (simp add: debt_hours_of_def)
  qed
  ultimately show ?thesis using e(5) by simp
qed



text \<open>
  Claim C9, as amended.  With no file metrics the aggregate step returns at once and
  leaves the state as it is; with file metrics it always produces a record (no
  division raises), whose per-function averages are 0 when there are no functions and
  whose comment density and average line length are 0 when the total of lines is 0.
\<close>

theorem zero_state_fallbacks:
  "(file_metrics st = [] \<longrightarrow> calculate_project_metrics st = Some st)
   \<and> (file_metrics st \<noteq> [] \<longrightarrow>
        (\<exists>pm. calculate_project_metrics st = Some (st\<lparr>complexity_metrics := Some pm\<rparr>)
           \<and> (all_functions_of st = [] \<longrightarrow>
                 pm_avg_function_complexity pm = 0 \<and> pm_avg_function_size pm = 0
                 \<and> pm_avg_function_params pm = 0)
           \<and> (total_loc_of st \<le> 0 \<longrightarrow>
                 pm_comment_density pm = 0 \<and> pm_avg_line_length pm = 0)))"
proof (intro conjI impI)
  assume "file_metrics st = []"
  then show "calculate_project_metrics st = Some st"
    by (simp add: calculate_project_metrics_def)
next
  assume "file_metrics st \<noteq> []"
  from calculate_produces[OF this]
  show "\<exists>pm. calculate_project_metrics st = Some (st\<lparr>complexity_metrics := Some pm\<rparr>)
           \<and> (all_functions_of st = [] \<longrightarrow>
                 pm_avg_function_complexity pm = 0 \<and> pm_avg_function_size pm = 0
                 \<and> pm_avg_function_params pm = 0)
           \<and> (total_loc_of st \<le> 0 \<longrightarrow>
                 pm_comment_density pm = 0 \<and> pm_avg_line_length pm = 0)"
    by blast
qed

theorem zero_state_fallbacks_witness:
  "file_metrics new_analyzer = []
   \<and> calculate_project_metrics new_analyzer = Some new_analyzer
   \<and> file_metrics one_style_state \<noteq> []
   \<and> all_functions_of one_style_state = []
   \<and> (\<exists>pm. calculate_project_metrics one_style_state
               = Some (one_style_state\<lparr>complexity_metrics := Some pm\<rparr>)
         \<and> pm_avg_function_complexity pm = 0 \<and> pm_avg_function_size pm = 0
         \<and> pm_avg_function_params pm = 0)"
proof -
  have a: "file_metrics new_analyzer = []"
    by (simp add: new_analyzer_def)
  have b: "file_metrics one_style_state \<noteq> []"
    by (simp add: one_style_state_def)
  have c: "all_functions_of one_style_state = []"
    by (simp add: one_style_state_def new_analyzer_def all_functions_of_def)
  from zero_state_fallbacks[of new_analyzer] zero_state_fallbacks[of one_style_state] a b c
  show ?thesis by auto
qed

text \<open>
  Claim C9 as stated expects a record with all counts 0 for a project without
  analysable files.  The analyzer produces no record there.
\<close>

theorem zero_files_no_record_counterexample:
  "file_metrics new_analyzer = []
   \<and> calculate_project_metrics new_analyzer = Some new_analyzer
   \<and> complexity_metrics new_analyzer = None"
  by (simp add: calculate_project_metrics_def new_analyzer_def)

section \<open>Structural analyzer: results\<close>

lemma subtree_unfold: "subtree n = n # concat (map subtree (child_nodes n))"
  by (cases n) simp

lemma mset_walk_queue:
  "mset (walk_queue todo) = mset (concat (map subtree todo))"
proof (induction todo rule: walk_queue.induct)
  case 1
  show ?case by simp
next
  case (2 n todo)
  have "mset (walk_queue (n # todo)) = {#n#} + mset (walk_queue (todo @ child_nodes n))"
    by simp
  also have "\<dots> = {#n#} + mset (concat (map subtree (todo @ child_nodes n)))"
    using 2 by simp
  also have "\<dots> = mset (subtree n) + mset (concat (map subtree todo))"
  proof -
    have st: "mset (subtree n) = {#n#} + mset (concat (map subtree (child_nodes n)))"
      by (cases n) simp
    show ?thesis unfolding st by simp
  qed
  finally show ?case by simp
qed

lemma mset_ast_walk: "mset (ast_walk n) = mset (subtree n)"
  unfolding ast_walk_def mset_walk_queue by simp

lemma complexity_step_weight: "complexity_step c m = c + step_weight m"
  by (simp add: complexity_step_def step_weight_def)

lemma foldl_complexity: "foldl complexity_step c ns = c + sum_list (map step_weight ns)"
  by (induction ns arbitrary: c) (simp_all add: complexity_step_weight)

lemma sum_list_mset_cong:
  fixes f :: "'a \<Rightarrow> int"
  assumes "mset xs = mset ys"
  shows "sum_list (map f xs) = sum_list (map f ys)"
proof -
  have "sum_mset (image_mset f (mset xs)) = sum_mset (image_mset f (mset ys))"
    using assms by simp
  then show ?thesis by (simp only: sum_mset_sum_list flip: mset_map)
qed

lemma sum_step_weight:
  "sum_list (map step_weight ns) =
     int (length (filter is_branch ns))
     + (\<Sum>b\<leftarrow>filter is_and_chain ns. int (length (child_nodes b)) - 1)"
  by (induction ns) (auto simp: step_weight_def is_branch_def is_and_chain_def)

lemma complexity_of_closed:
  "complexity_of n = 1 + int (length (filter is_branch (subtree n)))
     + (\<Sum>b\<leftarrow>filter is_and_chain (subtree n). int (length (child_nodes b)) - 1)"
proof -
  have "complexity_of n = 1 + sum_list (map step_weight (ast_walk n))"
    by (simp add: complexity_of_def foldl_complexity)
  also have "sum_list (map step_weight (ast_walk n)) = sum_list (map step_weight (subtree n))"
    by (rule sum_list_mset_cong) (rule mset_ast_walk)
  finally show ?thesis by (simp add: sum_step_weight)
qed

lemma foldr_max_ge: "x \<in> set xs \<Longrightarrow> (x::nat) \<le> foldr max xs 0"
  by (induction xs) auto

lemma height_child: "c \<in> set (child_nodes n) \<Longrightarrow> height c < height n"
  by (cases n) (auto simp: less_Suc_eq_le intro: foldr_max_ge)

lemma add_nesting_append:
  "add_nesting fn fp sm (xs @ ys) = add_nesting fn fp (add_nesting fn fp sm xs) ys"
  by (simp add: add_nesting_def)

lemma deep_nodes_unfold:
  "deep_nodes d n =
     (if is_nesting_kind (node_kind n)
      then (if d + 1 > 4 then [(lineno n, d + 1)] else []) @ concat (map (deep_nodes (d + 1)) (child_nodes n))
      else concat (map (deep_nodes d) (child_nodes n)))"
  by (cases n) simp

lemma check_nesting_enough:
  "(height n \<le> frames \<longrightarrow>
      check_python_nesting frames n fn fp d sm = (None, add_nesting fn fp sm (deep_nodes d n)))"
  "((\<forall>c \<in> set cs. height c \<le> frames) \<longrightarrow>
      check_children frames cs fn fp d sm
        = (None, add_nesting fn fp sm (concat (map (deep_nodes d) cs))))"
proof (induction frames n fn fp d sm and frames cs fn fp d sm
        rule: check_python_nesting_check_children.induct)
  case (1 n func_name fp current_depth sm)
  show ?case by (cases n) simp
next
  case (2 frames n func_name fp current_depth sm)
  show ?case
  proof
    assume h: "height n \<le> Suc frames"
    then have c: "\<forall>c \<in> set (child_nodes n). height c \<le> frames"
      using height_child[of _ n] by fastforce
    show "check_python_nesting (Suc frames) n func_name fp current_depth sm
            = (None, add_nesting func_name fp sm (deep_nodes current_depth n))"
    proof (cases "is_nesting_kind (node_kind n)")
      case True
      with 2(1)[OF True refl] c show ?thesis
        by (subst deep_nodes_unfold) (simp add: Let_def add_nesting_append, simp add: add_nesting_def)
    next
      case False
      with 2(2)[OF False] c show ?thesis
        by (subst deep_nodes_unfold) simp
    qed
  qed
next
  case (3 frames func_name fp current_depth sm)
  show ?case by (simp add: add_nesting_def)
next
  case (4 frames c cs func_name fp current_depth sm)
  show ?case
  proof
    assume a: "\<forall>c \<in> set (c # cs). height c \<le> frames"
    then have h: "height c \<le> frames" and r: "\<forall>c \<in> set cs. height c \<le> frames" by simp_all
    from 4(1) h have e: "check_python_nesting frames c func_name fp current_depth sm
        = (None, add_nesting func_name fp sm (deep_nodes current_depth c))" by simp
    from 4(2)[OF e[symmetric] refl] r
    show "check_children frames (c # cs) func_name fp current_depth sm
       = (None, add_nesting func_name fp sm (concat (map (deep_nodes current_depth) (c # cs))))"
      by (simp add: e add_nesting_append)
  qed
qed

lemma map_of_dict_set: "map_of (dict_set d k v) k = Some v"
  by (induction d k v rule: dict_set.induct) auto

lemma nested_get_set: "nested_get (nested_set d k1 k2 v) k1 k2 = Some v"
  by (induction d k1 k2 v rule: nested_set.induct) (auto simp: nested_get_def map_of_dict_set)

lemma function_body_metrics:
  assumes "fa_posonlyargs a = Some po"
  shows "\<exists>m. nested_get (function_metrics (snd (function_body E fp st n a))) fp
               (func_key (fa_name a) (lineno n)) = Some m
             \<and> fn_complexity m = complexity_of n \<and> fn_name m = fa_name a \<and> fn_line m = lineno n"
  using assms
  by (simp add: function_body_def Let_def nested_get_set split: prod.splits split del: if_split)

text \<open>
  Claim C5, as amended.  The cyclomatic complexity recorded for a function is 1, plus
  one per \<open>if\<close>, \<open>while\<close>, \<open>for\<close>, \<open>async for\<close> and \<open>try\<close> node of the function's
  tree, plus one per operand beyond the first of every \<open>and\<close> chain; exception
  handlers and \<open>or\<close> chains add nothing.
\<close>

theorem recorded_complexity:
  assumes "node_kind n = FunctionDef a \<or> node_kind n = AsyncFunctionDef a"
    and "fa_posonlyargs a \<noteq> None"
  shows "\<exists>m. nested_get (function_metrics (snd (function_step E fp st n))) fp
               (func_key (fa_name a) (lineno n)) = Some m
          \<and> fn_complexity m =
               1 + int (length (filter is_branch (subtree n)))
               + (\<Sum>b\<leftarrow>filter is_and_chain (subtree n). int (length (child_nodes b)) - 1)"
proof -
  from assms(2) obtain po where po: "fa_posonlyargs a = Some po" by auto
  have "function_step E fp st n = function_body E fp st n a"
    using assms(1) by (auto simp: function_step_def)
  with function_body_metrics[OF po, of E fp st n] show ?thesis
    by (auto simp: complexity_of_closed)
qed

theorem recorded_complexity_witness:
  "node_kind six_ifs_function = FunctionDef ((plain_attrs ''f'' 8)\<lparr>fa_args := 1\<rparr>)
   \<and> nested_get (function_metrics (snd (function_step (tree_env six_ifs_module) ''a.py''
         new_analyzer six_ifs_function))) ''a.py'' ''f@1''
       = Some \<lparr>fn_name = ''f'', fn_params = 1, fn_lines = 8, fn_complexity = 7, fn_line = 1\<rparr>
   \<and> 1 + int (length (filter is_branch (subtree six_ifs_function)))
       + (\<Sum>b\<leftarrow>filter is_and_chain (subtree six_ifs_function). int (length (child_nodes b)) - 1) = 7"
proof -
  have k: "node_kind six_ifs_function = FunctionDef ((plain_attrs ''f'' 8)\<lparr>fa_args := 1\<rparr>)"
    by (simp add: six_ifs_function_def)
  have p: "fa_posonlyargs ((plain_attrs ''f'' 8)\<lparr>fa_args := 1\<rparr>) \<noteq> None"
    by (simp add: plain_attrs_def)
  have e: "nested_get (function_metrics (snd (function_step (tree_env six_ifs_module) ''a.py''
         new_analyzer six_ifs_function))) ''a.py'' ''f@1''
       = Some \<lparr>fn_name = ''f'', fn_params = 1, fn_lines = 8, fn_complexity = 7, fn_line = 1\<rparr>"
    by code_simp
  have f: "func_key (fa_name ((plain_attrs ''f'' 8)\<lparr>fa_args := 1\<rparr>)) (lineno six_ifs_function) = ''f@1''"
    by code_simp
  from recorded_complexity[OF disjI1[OF k] p, of "tree_env six_ifs_module" "''a.py''" new_analyzer]
  show ?thesis unfolding f e using k by auto
qed

text \<open>
  Claim C5 as stated counts exception-handling clauses.  For a function whose body is
  one \<open>try\<close> with one \<open>except\<close> clause the stated count is 3; the analyzer records 2.
\<close>

theorem complexity_except_counterexample:
  "map_option fn_complexity
     (nested_get (function_metrics (snd (function_step (tree_env try_function) ''a.py''
        new_analyzer try_function))) ''a.py'' ''f@1'') = Some 2
   \<and> spec_cyclomatic try_function = 3"
  by code_simp

text \<open>
  Claim C3, as amended.  When the tree of a function is no higher than the number of
  nested calls the interpreter allows, the nesting walk of the function returns
  normally and appends one deep-nesting Finding for every control-flow node nested
  deeper than four levels, in the order of the walk: for a conditional nested six
  levels deep these are two Findings, at level 5 and at level 6.
\<close>

theorem nesting_findings_per_node:
  assumes "height n \<le> frames"
  shows "check_python_nesting frames n func_name fp 0 sm
           = (None, add_nesting func_name fp sm (deep_nodes 0 n))"
  using check_nesting_enough(1)[of n frames func_name fp 0 sm] assms by simp

theorem nesting_findings_per_node_witness:
  "height six_ifs_function \<le> 1000
   \<and> deep_nodes 0 six_ifs_function = [(6, 5), (7, 6)]
   \<and> check_python_nesting 1000 six_ifs_function ''f'' ''a.py'' 0 []
       = (None, [(''a.py'', [nesting_finding ''f'' 5 6, nesting_finding ''f'' 6 7])])"
proof -
  have h: "height six_ifs_function \<le> 1000"
    by code_simp
  have d: "deep_nodes 0 six_ifs_function = [(6, 5), (7, 6)]"
    by code_simp
  from nesting_findings_per_node[OF h, of "''f''" "''a.py''" "[]"] h d show ?thesis
    by (simp add: add_nesting_def)
qed

text \<open>
  Claim C3 as stated expects exactly one deep-nesting Finding for a function with a
  conditional nested six levels deep.  The analysis of such a file yields two.
\<close>

theorem six_levels_two_findings_counterexample:
  "ast_parse (tree_env six_ifs_module) six_ifs_source = Parsed six_ifs_module
   \<and> fst (analyze_python_file (tree_env six_ifs_module) ''a.py'' six_ifs_source new_analyzer) = True
   \<and> deep_nesting_findings
        (snd (analyze_python_file (tree_env six_ifs_module) ''a.py'' six_ifs_source new_analyzer))
        ''a.py''
      = [nesting_finding ''f'' 5 6, nesting_finding ''f'' 6 7]"
  by code_simp

lemma add_import_fields [simp]:
  "style_issues (add_import fp st name) = style_issues st"
  "code_smells (add_import fp st name) = code_smells st"
  "function_metrics (add_import fp st name) = function_metrics st"
  by (simp_all add: add_import_def)

lemma foldl_add_import_fields [simp]:
  "style_issues (foldl (add_import fp) st names) = style_issues st"
  "code_smells (foldl (add_import fp) st names) = code_smells st"
  "function_metrics (foldl (add_import fp) st names) = function_metrics st"
  by (induction names arbitrary: st) simp_all

lemma import_step_fields [simp]:
  "style_issues (import_step fp st n) = style_issues st"
  "code_smells (import_step fp st n) = code_smells st"
  "function_metrics (import_step fp st n) = function_metrics st"
  by (simp_all add: import_step_def split: kind.splits option.splits)

lemma analyze_python_imports_fields [simp]:
  "style_issues (analyze_python_imports tree fp st) = style_issues st"
  "code_smells (analyze_python_imports tree fp st) = code_smells st"
  "function_metrics (analyze_python_imports tree fp st) = function_metrics st"
proof -
  have "\<And>ns. style_issues (foldl (import_step fp) st ns) = style_issues st
           \<and> code_smells (foldl (import_step fp) st ns) = code_smells st
           \<and> function_metrics (foldl (import_step fp) st ns) = function_metrics st"
  proof -
    fix ns show "style_issues (foldl (import_step fp) st ns) = style_issues st
           \<and> code_smells (foldl (import_step fp) st ns) = code_smells st
           \<and> function_metrics (foldl (import_step fp) st ns) = function_metrics st"
      by (induction ns arbitrary: st) simp_all
  qed
  then show "style_issues (analyze_python_imports tree fp st) = style_issues st"
   "code_smells (analyze_python_imports tree fp st) = code_smells st"
   "function_metrics (analyze_python_imports tree fp st) = function_metrics st"
    by (simp_all add: analyze_python_imports_def)
qed

lemma function_body_style [simp]:
  "style_issues (snd (function_body E fp st n a)) = style_issues st"
  by (simp add: function_body_def Let_def split: option.splits prod.splits split del: if_split)

lemma function_step_style [simp]:
  "style_issues (snd (function_step E fp st n)) = style_issues st"
  by (simp add: function_step_def split: kind.splits)

lemma functions_loop_style [simp]:
  "style_issues (snd (functions_loop E fp ns st)) = style_issues st"
proof (induction ns arbitrary: st)
  case Nil show ?case by simp
next
  case (Cons n ns)
  obtain r st1 where f: "function_step E fp st n = (r, st1)" by (cases "function_step E fp st n")
  then have s: "style_issues st1 = style_issues st"
    using function_step_style[of E fp st n] by simp
  show ?case using Cons[of st1] f s by (cases r) simp_all
qed

lemma analyze_python_with_regex_fields [simp]:
  "style_issues (analyze_python_with_regex E fp content st) = style_issues st"
  "function_metrics (analyze_python_with_regex E fp content st) = function_metrics st"
  "import_graph (analyze_python_with_regex E fp content st) = import_graph st"
  "code_smells (analyze_python_with_regex E fp content st)
     = regex_smells E PYTHON_ANTI_PATTERNS fp content (code_smells st)"
  "dependencies (analyze_python_with_regex E fp content st)
     = regex_dependencies E (rx ''(?:from|import)%s+([%w%.]+)'') fp content (dependencies st)"
  by (simp_all add: analyze_python_with_regex_def)

lemma handle_failure_fields:
  "style_issues (handle_failure E fp content e st) = dd_append (style_issues st) fp (failure_finding e)"
  "function_metrics (handle_failure E fp content e st) = function_metrics st"
  "import_graph (handle_failure E fp content e st) = import_graph st"
  "code_smells (handle_failure E fp content e st)
     = regex_smells E PYTHON_ANTI_PATTERNS fp content (code_smells st)"
  "dependencies (handle_failure E fp content e st)
     = regex_dependencies E (rx ''(?:from|import)%s+([%w%.]+)'') fp content (dependencies st)"
  by (simp_all add: handle_failure_def)

lemma failure_severity:
  "f_severity (failure_finding e) = (case e of OtherError type_name \<Rightarrow> ''error'' | _ \<Rightarrow> ''warning'')"
  by (cases e) simp_all

text \<open>
  Claim C4, as amended.  Whenever the parser raises, or one of the two walks raises
  after a successful parse, \<open>_analyze_python_file\<close> returns \<open>False\<close>, has appended
  exactly one style Finding for the file, of severity \<open>warning\<close> for a syntax error or
  an attribute error and \<open>error\<close> for any other exception, and has run the regex
  fallback (code smells and dependencies) on the state the failure left.  After a
  parser error that state is the state before the call, so no function metrics and no
  import-graph entries come from the file; after an error in a walk it is the state
  the walk had reached.  When nothing raises the method returns \<open>True\<close> and appends no
  style Finding.
\<close>

theorem parse_failure_fallback:
  "(\<forall>e. ast_parse E content = ParseRaised e \<longrightarrow>
       fst (analyze_python_file E fp content st) = False
     \<and> style_issues (snd (analyze_python_file E fp content st))
         = dd_append (style_issues st) fp (failure_finding e)
     \<and> f_severity (failure_finding e)
         = (case e of OtherError type_name \<Rightarrow> ''error'' | _ \<Rightarrow> ''warning'')
     \<and> code_smells (snd (analyze_python_file E fp content st))
         = regex_smells E PYTHON_ANTI_PATTERNS fp content (code_smells st)
     \<and> dependencies (snd (analyze_python_file E fp content st))
         = regex_dependencies E (rx ''(?:from|import)%s+([%w%.]+)'') fp content (dependencies st)
     \<and> function_metrics (snd (analyze_python_file E fp content st)) = function_metrics st
     \<and> import_graph (snd (analyze_python_file E fp content st)) = import_graph st)
   \<and> (\<forall>tree e st1.
         ast_parse E content = Parsed tree
         \<and> analyze_python_functions E tree fp (analyze_python_imports tree fp st) = (Some e, st1)
       \<longrightarrow>
       fst (analyze_python_file E fp content st) = False
     \<and> style_issues (snd (analyze_python_file E fp content st))
         = dd_append (style_issues st) fp (failure_finding e)
     \<and> f_severity (failure_finding e)
         = (case e of OtherError type_name \<Rightarrow> ''error'' | _ \<Rightarrow> ''warning'')
     \<and> code_smells (snd (analyze_python_file E fp content st))
         = regex_smells E PYTHON_ANTI_PATTERNS fp content (code_smells st1)
     \<and> dependencies (snd (analyze_python_file E fp content st))
         = regex_dependencies E (rx ''(?:from|import)%s+([%w%.]+)'') fp content (dependencies st1)
     \<and> function_metrics (snd (analyze_python_file E fp content st)) = function_metrics st1
     \<and> import_graph (snd (analyze_python_file E fp content st)) = import_graph st1)
   \<and> (\<forall>tree st1.
         ast_parse E content = Parsed tree
         \<and> analyze_python_functions E tree fp (analyze_python_imports tree fp st) = (None, st1)
       \<longrightarrow>
       fst (analyze_python_file E fp content st) = True
     \<and> style_issues (snd (analyze_python_file E fp content st)) = style_issues st)"
proof (intro conjI allI impI)
  fix e
  assume p: "ast_parse E content = ParseRaised e"
  then have r: "analyze_python_file E fp content st = (False, handle_failure E fp content e st)"
    by (simp add: analyze_python_file_def)
  show "fst (analyze_python_file E fp content st) = False"
    by (simp add: r)
  show "style_issues (snd (analyze_python_file E fp content st))
         = dd_append (style_issues st) fp (failure_finding e)"
    by (simp add: r handle_failure_fields)
  show "f_severity (failure_finding e)
         = (case e of OtherError type_name \<Rightarrow> ''error'' | _ \<Rightarrow> ''warning'')"
    by (rule failure_severity)
  show "code_smells (snd (analyze_python_file E fp content st))
         = regex_smells E PYTHON_ANTI_PATTERNS fp content (code_smells st)"
    by (simp add: r handle_failure_fields)
  show "dependencies (snd (analyze_python_file E fp content st))
         = regex_dependencies E (rx ''(?:from|import)%s+([%w%.]+)'') fp content (dependencies st)"
    by (simp add: r handle_failure_fields)
  show "function_metrics (snd (analyze_python_file E fp content st)) = function_metrics st"
    by (simp add: r handle_failure_fields)
  show "import_graph (snd (analyze_python_file E fp content st)) = import_graph st"
    by (simp add: r handle_failure_fields)
next
  fix tree e st1
  assume a: "ast_parse E content = Parsed tree
         \<and> analyze_python_functions E tree fp (analyze_python_imports tree fp st) = (Some e, st1)"
  then have r: "analyze_python_file E fp content st = (False, handle_failure E fp content e st1)"
    by (simp add: analyze_python_file_def)
  have s: "style_issues st1 = style_issues st"
    using a functions_loop_style[of E fp "ast_walk tree" "analyze_python_imports tree fp st"]
    by (simp add: analyze_python_functions_def)
  show "fst (analyze_python_file E fp content st) = False"
    by (simp add: r)
  show "style_issues (snd (analyze_python_file E fp content st))
         = dd_append (style_issues st) fp (failure_finding e)"
    by (simp add: r handle_failure_fields s)
  show "f_severity (failure_finding e)
         = (case e of OtherError type_name \<Rightarrow> ''error'' | _ \<Rightarrow> ''warning'')"
    by (rule failure_severity)
  show "code_smells (snd (analyze_python_file E fp content st))
         = regex_smells E PYTHON_ANTI_PATTERNS fp content (code_smells st1)"
    by (simp add: r handle_failure_fields)
  show "dependencies (snd (analyze_python_file E fp content st))
         = regex_dependencies E (rx ''(?:from|import)%s+([%w%.]+)'') fp content (dependencies st1)"
    by (simp add: r handle_failure_fields)
  show "function_metrics (snd (analyze_python_file E fp content st)) = function_metrics st1"
    by (simp add: r handle_failure_fields)
  show "import_graph (snd (analyze_python_file E fp content st)) = import_graph st1"
    by (simp add: r handle_failure_fields)
next
  fix tree st1
  assume a: "ast_parse E content = Parsed tree
         \<and> analyze_python_functions E tree fp (analyze_python_imports tree fp st) = (None, st1)"
  then have r: "analyze_python_file E fp content st
      = (True, st1\<lparr>code_smells :=
                  apply_regex_patterns E PYTHON_ANTI_PATTERNS fp content (code_smells st1)\<rparr>)"
    by (simp add: analyze_python_file_def)
  have s: "style_issues st1 = style_issues st"
    using a functions_loop_style[of E fp "ast_walk tree" "analyze_python_imports tree fp st"]
    by (simp add: analyze_python_functions_def)
  show "fst (analyze_python_file E fp content st) = True"
    by (simp add: r)
  show "style_issues (snd (analyze_python_file E fp content st)) = style_issues st"
    by (simp add: r s)
qed

text \<open>
  The witness: a parser that raises \<open>SyntaxError\<close>.  The style Finding is a warning and
  the analyzer holds no function metrics afterwards.
\<close>

theorem parse_failure_fallback_witness:
  "ast_parse syntax_error_env ''def f(:'' = ParseRaised (SyntaxError 1 ''invalid syntax'')
   \<and> fst (analyze_python_file syntax_error_env ''a.py'' ''def f(:'' new_analyzer) = False
   \<and> style_issues (snd (analyze_python_file syntax_error_env ''a.py'' ''def f(:'' new_analyzer))
       = [(''a.py'', [failure_finding (SyntaxError 1 ''invalid syntax'')])]
   \<and> f_severity (failure_finding (SyntaxError 1 ''invalid syntax'')) = ''warning''
   \<and> function_metrics (snd (analyze_python_file syntax_error_env ''a.py'' ''def f(:'' new_analyzer))
       = []"
proof -
  have p: "ast_parse syntax_error_env ''def f(:'' = ParseRaised (SyntaxError 1 ''invalid syntax'')"
    by (simp add: syntax_error_env_def)
  have n: "style_issues new_analyzer = []" "function_metrics new_analyzer = []"
    by (simp_all add: new_analyzer_def)
  from parse_failure_fallback[of syntax_error_env "''def f(:''" "''a.py''" new_analyzer] p
  have "fst (analyze_python_file syntax_error_env ''a.py'' ''def f(:'' new_analyzer) = False"
    "style_issues (snd (analyze_python_file syntax_error_env ''a.py'' ''def f(:'' new_analyzer))
       = dd_append (style_issues new_analyzer) ''a.py'' (failure_finding (SyntaxError 1 ''invalid syntax''))"
    "f_severity (failure_finding (SyntaxError 1 ''invalid syntax''))
       = (case SyntaxError 1 ''invalid syntax'' of OtherError type_name \<Rightarrow> ''error'' | _ \<Rightarrow> ''warning'')"
    "function_metrics (snd (analyze_python_file syntax_error_env ''a.py'' ''def f(:'' new_analyzer))
       = function_metrics new_analyzer"
    by blast+
  then show ?thesis using p by (simp add: n)
qed

lemma deep_expression_other: "m \<in> set (subtree (deep_expression k)) \<Longrightarrow> node_kind m = Other"
  by (induction k) auto

lemma set_walk_queue: "set (walk_queue todo) = (\<Union>n \<in> set todo. set (subtree n))"
proof -
  have "set_mset (mset (walk_queue todo)) = set_mset (mset (concat (map subtree todo)))"
    by (simp only: mset_walk_queue)
  then show ?thesis by simp
qed

lemma foldl_import_other:
  "\<forall>m \<in> set ns. node_kind m = Other \<Longrightarrow> foldl (import_step fp) st ns = st"
  by (induction ns arbitrary: st) (simp_all add: import_step_def)

lemma chain_overflow:
  "frames \<le> k \<Longrightarrow>
   check_python_nesting frames (deep_expression k) fn fp d sm
     = (Some (OtherError ''RecursionError''), sm)"
proof (induction frames arbitrary: k)
  case 0
  show ?case by simp
next
  case (Suc frames)
  then obtain k' where k: "k = Suc k'" and l: "frames \<le> k'" by (cases k) auto
  show ?case unfolding k using Suc.IH[OF l] by (simp add: is_nesting_kind_def)
qed

lemma deep_function_overflow:
  assumes "frames \<le> k"
  shows "check_python_nesting (Suc (Suc frames))
           (Node (FunctionDef a) 2 [Node Other 0 [], Node Other 3 [deep_expression k]])
           fn fp 0 sm = (Some (OtherError ''RecursionError''), sm)"
  using chain_overflow[OF assms, of fn fp 0 sm] by (simp add: is_nesting_kind_def)

lemma deep_function_raises:
  "check_python_nesting 1000
     (Node (FunctionDef a) 2 [Node Other 0 [], Node Other 3 [deep_expression 1000]])
     fn fp 0 sm = (Some (OtherError ''RecursionError''), sm)"
proof -
  have "(998::nat) \<le> 1000" by simp
  from deep_function_overflow[OF this, of a fn fp sm] show ?thesis by simp
qed

lemma deep_walk:
  "ast_walk deep_module =
     deep_module # Node (Import [''os'']) 1 [Node Other 1 []]
       # Node (FunctionDef (plain_attrs ''g'' 3)) 2
           [Node Other 0 [], Node Other 3 [deep_expression 1000]]
       # walk_queue [Node Other 1 [], Node Other 0 [], Node Other 3 [deep_expression 1000]]"
  unfolding ast_walk_def deep_module_def
  by (subst walk_queue.simps(2), simp del: walk_queue.simps,
      subst walk_queue.simps(2), simp del: walk_queue.simps,
      subst walk_queue.simps(2), simp del: walk_queue.simps)

lemma deep_rest_other:
  "\<forall>m \<in> set (walk_queue [Node Other 1 [], Node Other 0 [], Node Other 3 [deep_expression 1000]]).
     node_kind m = Other"
  unfolding set_walk_queue using deep_expression_other by auto

lemma deep_imports:
  "analyze_python_imports deep_module ''a.py'' new_analyzer = add_import ''a.py'' new_analyzer ''os''"
  unfolding analyze_python_imports_def deep_walk
  by (simp add: foldl_import_other[OF deep_rest_other] import_step_def deep_module_def
        del: walk_queue.simps)

lemma deep_key: "func_key ''g'' 2 = ''g@2''"
  by code_simp

lemma deep_functions:
  "\<exists>st2. analyze_python_functions deep_env deep_module ''a.py'' st
            = (Some (OtherError ''RecursionError''), st2)
     \<and> import_graph st2 = import_graph st
     \<and> style_issues st2 = style_issues st
     \<and> map_option fn_name (nested_get (function_metrics st2) ''a.py'' ''g@2'') = Some ''g''"
  unfolding analyze_python_functions_def deep_walk
  by (simp add: function_step_def deep_module_def function_body_def Let_def plain_attrs_def
        deep_env_def deep_function_raises deep_key nested_get_set
        split del: if_split del: walk_queue.simps)

text \<open>
  Claim C4 as stated keeps no structural result of a failed analysis.  For a module
  with an import and a function whose body holds an expression nested deeper than the
  interpreter's recursion limit, the parser succeeds, the nesting walk raises
  \<open>RecursionError\<close>, the style Finding has severity \<open>error\<close>, and the import-graph
  entry and the function's metrics recorded before the exception are still there.
\<close>

theorem partial_results_kept_counterexample:
  "ast_parse deep_env deep_source = Parsed deep_module
   \<and> fst (analyze_python_file deep_env ''a.py'' deep_source new_analyzer) = False
   \<and> map f_severity (dd_get (style_issues
         (snd (analyze_python_file deep_env ''a.py'' deep_source new_analyzer))) ''a.py'')
       = [''error'']
   \<and> import_graph (snd (analyze_python_file deep_env ''a.py'' deep_source new_analyzer)) ''a.py''
       = {''os''}
   \<and> map_option fn_name (nested_get (function_metrics
         (snd (analyze_python_file deep_env ''a.py'' deep_source new_analyzer))) ''a.py'' ''g@2'')
       = Some ''g''"
proof -
  let ?st1 = "add_import ''a.py'' new_analyzer ''os''"
  from deep_functions[of ?st1] obtain st2 where
    f: "analyze_python_functions deep_env deep_module ''a.py'' ?st1
          = (Some (OtherError ''RecursionError''), st2)"
    and g2: "import_graph st2 = import_graph ?st1"
    and s2: "style_issues st2 = style_issues ?st1"
    and m2: "map_option fn_name (nested_get (function_metrics st2) ''a.py'' ''g@2'') = Some ''g''"
    by blast
  have p: "ast_parse deep_env deep_source = Parsed deep_module"
    by (simp add: deep_env_def)
  have r: "analyze_python_file deep_env ''a.py'' deep_source new_analyzer
     = (False, handle_failure deep_env ''a.py'' deep_source (OtherError ''RecursionError'') st2)"
    by (simp add: analyze_python_file_def p deep_imports f)
  have "style_issues st2 = []" unfolding s2 by (simp add: add_import_def new_analyzer_def)
  then have s: "map f_severity (dd_get (style_issues
         (handle_failure deep_env ''a.py'' deep_source (OtherError ''RecursionError'') st2)) ''a.py'')
       = [''error'']"
    by (simp add: handle_failure_fields)
  have i: "import_graph (handle_failure deep_env ''a.py'' deep_source (OtherError ''RecursionError'') st2) ''a.py''
       = {''os''}"
    unfolding handle_failure_fields g2 by (simp add: add_import_def set_add_def new_analyzer_def)
  have g: "map_option fn_name (nested_get (function_metrics
         (handle_failure deep_env ''a.py'' deep_source (OtherError ''RecursionError'') st2)) ''a.py'' ''g@2'')
       = Some ''g''"
    unfolding handle_failure_fields by (rule m2)
  show ?thesis unfolding r using p s i g by simp
qed

section \<open>Generic analyzer: results\<close>

lemma issue_name_after_loop:
  "fst (performance_loop E fp content language issues) = ''multiple_dom_access''"
  by (simp add: performance_loop_def PERFORMANCE_ISSUES_def performance_step_def)

lemma rule_matches_types:
  assumes "f \<in> set (dd_values (rule_matches E r fp content issues))"
  shows "f \<in> set (dd_values issues) \<or> f_type f = r_name r"
proof (cases "r_regex r")
  case None
  with assms show ?thesis by (simp add: rule_matches_def)
next
  case (Some regex)
  have "\<And>ms iss. f \<in> set (dd_values (foldl (\<lambda>s m. dd_append s fp (rule_finding r content (fst m))) iss ms))
        \<Longrightarrow> f \<in> set (dd_values iss) \<or> f_type f = r_name r"
  proof -
    fix ms iss
    show "f \<in> set (dd_values (foldl (\<lambda>s m. dd_append s fp (rule_finding r content (fst m))) iss ms))
        \<Longrightarrow> f \<in> set (dd_values iss) \<or> f_type f = r_name r"
    proof (induction ms arbitrary: iss)
      case Nil then show ?case by simp
    next
      case (Cons m ms)
      from Cons.IH[of "dd_append iss fp (rule_finding r content (fst m))"] Cons.prems
      show ?case by (auto simp: dd_values_append rule_finding_def Let_def)
    qed
  qed
  with assms Some show ?thesis by (simp add: rule_matches_def)
qed

lemma performance_loop_types:
  assumes "f \<in> set (dd_values (snd (performance_loop E fp content language issues)))"
  shows "f \<in> set (dd_values issues) \<or> f_type f = ''inefficient_loop''
         \<or> f_type f = ''multiple_dom_access''"
proof -
  let ?r1 = "PERFORMANCE_ISSUES ! 0" and ?r2 = "PERFORMANCE_ISSUES ! 1" and ?r3 = "PERFORMANCE_ISSUES ! 2"
  have p: "PERFORMANCE_ISSUES = [?r1, ?r2, ?r3]" by (simp add: PERFORMANCE_ISSUES_def)
  have n: "r_name ?r1 = ''inefficient_loop''" "r_regex ?r2 = None" "r_name ?r3 = ''multiple_dom_access''"
    by (simp_all add: PERFORMANCE_ISSUES_def)
  define i1 where "i1 = (if rule_applies ?r1 language then rule_matches E ?r1 fp content issues else issues)"
  define i2 where "i2 = (if rule_applies ?r2 language then rule_matches E ?r2 fp content i1 else i1)"
  define i3 where "i3 = (if rule_applies ?r3 language then rule_matches E ?r3 fp content i2 else i2)"
  have e: "snd (performance_loop E fp content language issues) = i3"
    unfolding performance_loop_def by (subst p) (simp add: performance_step_def i1_def i2_def i3_def)
  have n2: "r_regex (PERFORMANCE_ISSUES ! Suc 0) = None" by (simp add: PERFORMANCE_ISSUES_def)
  have s2: "i2 = i1" by (simp add: i2_def rule_matches_def n2)
  from assms have "f \<in> set (dd_values i3)" by (simp add: e)
  then have "f \<in> set (dd_values i2) \<or> f_type f = ''multiple_dom_access''"
    using rule_matches_types[of f E ?r3 fp content i2] by (auto simp: i3_def n(3) split: if_splits)
  then have "f \<in> set (dd_values i1) \<or> f_type f = ''multiple_dom_access''" by (simp add: s2)
  then show ?thesis
    using rule_matches_types[of f E ?r1 fp content issues] by (auto simp: i1_def n(1) split: if_splits)
qed

lemma analyze_generic_performance:
  "performance_issues (snd (analyze_generic E fp content language st))
     = snd (performance_loop E fp content language (performance_issues st))"
  by (simp add: analyze_generic_def Let_def issue_name_after_loop)

lemma analyze_generic_returns:
  "fst (analyze_generic E fp content language st) = None"
  by (simp add: analyze_generic_def Let_def issue_name_after_loop)

lemma nested_loops_never_reported:
  assumes "f \<in> set (dd_values (performance_issues (snd (analyze_generic E fp content language st))))"
    and "f_type f = ''nested_loops''"
  shows "f \<in> set (dd_values (performance_issues st))"
  using performance_loop_types[of f E fp content language "performance_issues st"] assms
  by (auto simp: analyze_generic_performance)

text \<open>
  Claim C6 says that a loop inside the block of another loop yields a nested-loops
  Finding of severity high.  The block that would report it is never entered: after
  the loop over the performance rules the loop variable holds the name of the last
  rule, \<open>multiple_dom_access\<close>.  For a Python file with two nested \<open>for\<close> loops the
  generic analyzer returns normally and reports no performance issue at all.
\<close>

theorem nested_loops_not_reported:
  "re_finditer loops_env (loop_pattern ''Python'') nested_loops_source = [(0, ''for''), (16, ''for'')]
   \<and> fst (analyze_generic loops_env ''a.py'' nested_loops_source ''Python'' new_analyzer) = None
   \<and> performance_issues
        (snd (analyze_generic loops_env ''a.py'' nested_loops_source ''Python'' new_analyzer)) = []
   \<and> nested_loops_findings
        (snd (analyze_generic loops_env ''a.py'' nested_loops_source ''Python'' new_analyzer))
        ''a.py'' = []"
proof -
  have a: "re_finditer loops_env (loop_pattern ''Python'') nested_loops_source = [(0, ''for''), (16, ''for'')]"
    by (simp add: loops_env_def loop_pattern_def)
  have b: "snd (performance_loop loops_env ''a.py'' nested_loops_source ''Python'' []) = []"
    by code_simp
  have c: "performance_issues new_analyzer = []" by (simp add: new_analyzer_def)
  show ?thesis
    by (simp add: a analyze_generic_returns analyze_generic_performance b c nested_loops_findings_def)
qed

end
